theory Spec2Isabelle
  imports Main "HOL-Library.Word"
begin

section \<open>The type registry of pgtype (pgtype.go)\<close>

subsection \<open>Identifiers, format codes, Go types and interface values\<close>

text \<open>
  An OID is a Go \<open>uint32\<close> and a format code a Go \<open>int16\<close>. The constants are the ones
  of pgtype.go that the modelled functions compare against.
\<close>

type_synonym oid = "32 word"
type_synonym format = "16 word"

definition TextFormatCode :: format where "TextFormatCode = 0"
definition BinaryFormatCode :: format where "BinaryFormatCode = 1"

definition ByteaOID :: oid where "ByteaOID = 17"
definition TextOID :: oid where "TextOID = 25"
definition VarcharOID :: oid where "VarcharOID = 1043"

text \<open>
  \<open>reflect.Kind\<close> and \<open>reflect.Type\<close>, as far as the modelled code tells types apart:
  the predeclared boolean, numeric and string types, pointer and slice types, the empty
  interface, and defined (named) types with their underlying type. The kind of a
  defined type is the kind of its underlying type, as in package reflect.
  (\<open>reflect.Int\<close> is written \<open>IntKind\<close>.)
\<close>

datatype Kind = Invalid | Bool | IntKind | Int8 | Int16 | Int32 | Int64
  | Uint | Uint8 | Uint16 | Uint32 | Uint64 | Float32 | Float64
  | Interface | Ptr | Slice | String | Struct

datatype predeclared = bool_t | int_t | int8_t | int16_t | int32_t | int64_t
  | uint_t | uint8_t | uint16_t | uint32_t | uint64_t | float32_t | float64_t | string_t

fun kindOfPredeclared :: "predeclared \<Rightarrow> Kind" where
  "kindOfPredeclared bool_t = Bool"
| "kindOfPredeclared int_t = IntKind"
| "kindOfPredeclared int8_t = Int8"
| "kindOfPredeclared int16_t = Int16"
| "kindOfPredeclared int32_t = Int32"
| "kindOfPredeclared int64_t = Int64"
| "kindOfPredeclared uint_t = Uint"
| "kindOfPredeclared uint8_t = Uint8"
| "kindOfPredeclared uint16_t = Uint16"
| "kindOfPredeclared uint32_t = Uint32"
| "kindOfPredeclared uint64_t = Uint64"
| "kindOfPredeclared float32_t = Float32"
| "kindOfPredeclared float64_t = Float64"
| "kindOfPredeclared string_t = String"

datatype rtype =
    Predeclared predeclared
  | PtrTo rtype
  | SliceOf rtype
  | EmptyInterface
  | Named string rtype

fun KindOf :: "rtype \<Rightarrow> Kind" where
  "KindOf (Predeclared b) = kindOfPredeclared b"
| "KindOf (PtrTo t) = Ptr"
| "KindOf (SliceOf t) = Slice"
| "KindOf EmptyInterface = Interface"
| "KindOf (Named n u) = KindOf u"

text \<open>\<open>Type.Elem()\<close> of a pointer or slice type; it panics on any other kind (\<open>None\<close>).\<close>

fun Elem :: "rtype \<Rightarrow> rtype option" where
  "Elem (PtrTo t) = Some t"
| "Elem (SliceOf t) = Some t"
| "Elem (Named n u) = Elem u"
| "Elem t = None"

text \<open>
  Memory is a store of cells. A byte slice is a slice header (backing array, offset,
  length, capacity) or nil; the value of a variable is nil (the zero pointer or
  interface), a pointer, a string (its bytes), a slice header, or some other scalar.
\<close>

type_synonym addr = nat

datatype slice = nil_slice | SliceHdr addr nat nat nat

datatype data = nil | ptr addr | str "8 word list" | sl slice | scalar nat

text \<open>
  An \<open>interface{}\<close> value is the nil interface or a dynamic type with a value. A typed
  nil pointer is \<open>Dyn t nil\<close>; it is not the nil interface, as in Go.
\<close>

datatype iface = NilInterface | Dyn rtype data

fun TypeOf :: "iface \<Rightarrow> rtype option" where
  "TypeOf NilInterface = None"
| "TypeOf (Dyn t d) = Some t"

subsection \<open>Descriptors and the Map\<close>

text \<open>
  A codec is an object behind the \<open>Codec\<close> interface; its implementations are not part
  of pgtype.go. A codec is identified by a number, and what its methods answer is given
  by the environment below. \<open>Type\<close> is the Go struct; the Map stores \<open>*Type\<close>, and since
  no function of the file writes through such a pointer a descriptor is modelled by its
  value. A descriptor always carries a codec (with a nil \<open>Codec\<close> field
  \<open>RegisterType\<close> panics; such descriptors are outside the model).
\<close>

type_synonym codec = nat

record Type =
  Codec :: codec
  Name :: string
  OID :: oid

text \<open>
  Scan plans. \<open>pointerPointerScanPlan\<close> keeps its \<open>dstType\<close> and its \<open>next\<close> plan (nil
  until \<open>SetNext\<close>); \<open>wrapScanPlan\<close> stands for the other implementations of
  \<open>WrappedScanPlanNextSetter\<close>, named by their Go type; \<open>codecScanPlan\<close> is a plan a
  codec built. The \<open>m\<close> field of the plans that hold the Map is the Map itself.
\<close>

datatype ScanPlan =
    scanPlanAnyToUndecodedBytes
  | scanPlanString
  | scanPlanAnyTextToBytes
  | scanPlanTextAnyToTextScanner
  | pointerPointerScanPlan rtype "ScanPlan option"
  | wrapScanPlan string "ScanPlan option"
  | pointerEmptyInterfaceScanPlan codec oid format
  | scanPlanCodecSQLScanner codec oid format
  | scanPlanSQLScanner format
  | scanPlanFail oid format
  | codecScanPlan nat

datatype EncodePlan =
    encodePlanStringToAnyTextFormat
  | encodePlanTextValuerToAnyTextFormat
  | derefPointerEncodePlan "EncodePlan option"
  | wrapEncodePlan string "EncodePlan option"
  | codecEncodePlan nat

type_synonym TryWrapScanPlanFunc = "iface \<Rightarrow> (ScanPlan \<times> iface) option"
type_synonym TryWrapEncodePlanFunc = "iface \<Rightarrow> (EncodePlan \<times> iface) option"

text \<open>
  The Map, field by field. A Go map is a partial function; \<open>reflectTypeToType\<close> is a
  map that may be nil (\<open>None\<close>); the keys \<open>reflect.TypeOf(v)\<close> are \<open>None\<close> for the nil
  interface. A \<open>[2]ScanPlan\<close> is a pair of plans that may be nil.
\<close>

record Map =
  oidToType :: "oid \<rightharpoonup> Type"
  nameToType :: "string \<rightharpoonup> Type"
  reflectTypeToName :: "rtype option \<rightharpoonup> string"
  oidToFormatCode :: "oid \<rightharpoonup> format"
  reflectTypeToType :: "(rtype option \<rightharpoonup> Type) option"
  memoizedScanPlans :: "oid \<rightharpoonup> (rtype option \<rightharpoonup> ScanPlan option \<times> ScanPlan option)"
  TryWrapEncodePlanFuncs :: "TryWrapEncodePlanFunc list"
  TryWrapScanPlanFuncs :: "TryWrapScanPlanFunc list"

subsection \<open>Registration and lookup\<close>

text \<open>
  \<open>RegisterType\<close>: the three index writes, then the invalidation. The loop that deletes
  every key of \<open>memoizedScanPlans\<close> leaves the empty map. \<open>pf\<close> is what
  \<open>t.Codec.PreferredFormat()\<close> answers.
\<close>

definition RegisterType :: "(codec \<Rightarrow> format) \<Rightarrow> Map \<Rightarrow> Type \<Rightarrow> Map" where
  "RegisterType pf m t =
     m\<lparr>oidToType := (oidToType m)(OID t \<mapsto> t),
       nameToType := (nameToType m)(Name t \<mapsto> t),
       oidToFormatCode := (oidToFormatCode m)(OID t \<mapsto> pf (Codec t)),
       reflectTypeToType := None,
       memoizedScanPlans := Map.empty\<rparr>"

definition RegisterDefaultPgType :: "Map \<Rightarrow> iface \<Rightarrow> string \<Rightarrow> Map" where
  "RegisterDefaultPgType m v name =
     m\<lparr>reflectTypeToName := (reflectTypeToName m)(TypeOf v \<mapsto> name),
       reflectTypeToType := None,
       memoizedScanPlans := Map.empty\<rparr>"

text \<open>\<open>TypeForOID\<close> and \<open>TypeForName\<close> return \<open>(dt, ok)\<close>: \<open>Some dt\<close> when ok.\<close>

definition TypeForOID :: "Map \<Rightarrow> oid \<Rightarrow> Type option" where
  "TypeForOID m oid = oidToType m oid"

definition TypeForName :: "Map \<Rightarrow> string \<Rightarrow> Type option" where
  "TypeForName m name = nameToType m name"

text \<open>
  \<open>buildReflectTypeToType\<close> ranges over \<open>reflectTypeToName\<close> and stores the descriptor
  of each name that is registered; every key is written once, so the order of the range
  does not matter.
\<close>

definition buildReflectTypeToType :: "Map \<Rightarrow> Map" where
  "buildReflectTypeToType m =
     m\<lparr>reflectTypeToType :=
         Some (\<lambda>rt. case reflectTypeToName m rt of
                       None \<Rightarrow> None
                     | Some name \<Rightarrow> nameToType m name)\<rparr>"

text \<open>\<open>TypeForValue\<close> builds the shape index when it is nil, so it returns the Map too.\<close>

definition TypeForValue :: "Map \<Rightarrow> iface \<Rightarrow> Type option \<times> Map" where
  "TypeForValue m v =
     (let m' = (if reflectTypeToType m = None then buildReflectTypeToType m else m)
      in case reflectTypeToType m' of
           None \<Rightarrow> (None, m')
         | Some idx \<Rightarrow> (idx (TypeOf v), m'))"

definition FormatCodeForOID :: "Map \<Rightarrow> oid \<Rightarrow> format" where
  "FormatCodeForOID m oid =
     (case oidToFormatCode m oid of Some fc \<Rightarrow> fc | None \<Rightarrow> TextFormatCode)"

text \<open>
  A run of registrations, for the claims that speak of what happens "as long as no later
  registration occurs": the calls are made in list order.
\<close>

datatype registration = RegType Type | RegDefault iface string

fun register :: "(codec \<Rightarrow> format) \<Rightarrow> Map \<Rightarrow> registration \<Rightarrow> Map" where
  "register pf m (RegType t) = RegisterType pf m t"
| "register pf m (RegDefault v name) = RegisterDefaultPgType m v name"

fun registers :: "(codec \<Rightarrow> format) \<Rightarrow> Map \<Rightarrow> registration list \<Rightarrow> Map" where
  "registers pf m [] = m"
| "registers pf m (r # rs) = registers pf (register pf m r) rs"

fun registersOID :: "oid \<Rightarrow> registration \<Rightarrow> bool" where
  "registersOID i (RegType t) = (OID t = i)"
| "registersOID i (RegDefault v name) = False"

text \<open>
  The two indexes agree when every descriptor found under an identifier is the one found
  under its name, and conversely.
\<close>

definition indexesConsistent :: "Map \<Rightarrow> bool" where
  "indexesConsistent m \<longleftrightarrow>
     (\<forall>i t. oidToType m i = Some t \<longrightarrow> OID t = i \<and> nameToType m (Name t) = Some t) \<and>
     (\<forall>n t. nameToType m n = Some t \<longrightarrow> Name t = n \<and> oidToType m (OID t) = Some t)"

text \<open>A Map with nothing registered, as \<open>NewMap\<close> makes it before its first registration.\<close>

definition emptyMap :: "TryWrapEncodePlanFunc list \<Rightarrow> TryWrapScanPlanFunc list \<Rightarrow> Map" where
  "emptyMap ews sws =
     \<lparr>oidToType = Map.empty, nameToType = Map.empty, reflectTypeToName = Map.empty,
      oidToFormatCode = Map.empty, reflectTypeToType = None,
      memoizedScanPlans = Map.empty,
      TryWrapEncodePlanFuncs = ews, TryWrapScanPlanFuncs = sws\<rparr>"

section \<open>Plan resolution\<close>

subsection \<open>What lies outside pgtype.go\<close>

text \<open>
  The codecs, the method sets of the Go types and the plans of other files are
  parameters of the model. A codec's \<open>PlanScan\<close> and \<open>PlanEncode\<close> receive the Map and
  may use it, so they return the Map they leave behind together with the plan or nil.
  \<open>implements I t\<close> says that the dynamic type \<open>t\<close> satisfies the interface named \<open>I\<close>.
\<close>

datatype panic = IndexOutOfRange | NilDereference | TypeAssertionFailed | ReflectPanic
  | OtherPanic nat

datatype error =
    ErrCannotScanNull "rtype option"
  | ErrCannotScanOID oid format "rtype option"
  | ErrUnableToEncode iface oid
  | ErrOther nat

datatype obj = Cell data | Bytes "8 word list"

record heap =
  cells :: "addr \<rightharpoonup> obj"
  next_addr :: addr

record env =
  CodecPlanScan :: "codec \<Rightarrow> Map \<Rightarrow> oid \<Rightarrow> format \<Rightarrow> iface \<Rightarrow> ScanPlan option \<times> Map"
  CodecPlanEncode :: "codec \<Rightarrow> Map \<Rightarrow> oid \<Rightarrow> format \<Rightarrow> iface \<Rightarrow> EncodePlan option \<times> Map"
  implements :: "string \<Rightarrow> rtype \<Rightarrow> bool"
  ValuerValue :: "iface \<Rightarrow> Map \<Rightarrow> heap \<Rightarrow> panic + (iface \<times> error option)"
  OtherScan :: "ScanPlan \<Rightarrow> Map \<Rightarrow> slice \<Rightarrow> iface \<Rightarrow> heap
                  \<Rightarrow> panic + (error option \<times> Map \<times> heap)"
  PlanEncodeRun :: "EncodePlan \<Rightarrow> Map \<Rightarrow> iface \<Rightarrow> slice \<Rightarrow> heap
                  \<Rightarrow> panic + ((slice \<times> error option) \<times> Map \<times> heap)"

text \<open>The type assertion \<open>v.(I)\<close> to an interface type: it fails on the nil interface.\<close>

definition assertsTo :: "env \<Rightarrow> string \<Rightarrow> iface \<Rightarrow> bool" where
  "assertsTo E I v = (case v of NilInterface \<Rightarrow> False | Dyn t d \<Rightarrow> implements E I t)"

text \<open>The Go types the type switches name. \<open>UndecodedBytes\<close> is declared in another file.\<close>

definition UndecodedBytesT :: rtype where
  "UndecodedBytesT = Named ''UndecodedBytes'' (SliceOf (Predeclared uint8_t))"

definition ptrString :: rtype where "ptrString = PtrTo (Predeclared string_t)"
definition ptrBytes :: rtype where "ptrBytes = PtrTo (SliceOf (Predeclared uint8_t))"
definition ptrAny :: rtype where "ptrAny = PtrTo EmptyInterface"

subsection \<open>Scan plans\<close>

fun SetNext :: "ScanPlan \<Rightarrow> ScanPlan \<Rightarrow> ScanPlan" where
  "SetNext (pointerPointerScanPlan t old) next = pointerPointerScanPlan t (Some next)"
| "SetNext (wrapScanPlan w old) next = wrapScanPlan w (Some next)"
| "SetNext p next = p"

fun isScanPlanFail :: "ScanPlan \<Rightarrow> bool" where
  "isScanPlanFail (scanPlanFail oid fc) = True"
| "isScanPlanFail p = False"

text \<open>
  \<open>TryPointerPointerScanPlan\<close>. \<open>dstValue.Elem()\<close> of a nil pointer is the zero Value, of
  kind \<open>Invalid\<close>; of any other pointer it has the element type of the pointer type.
  The next target is the zero value of that element type: a typed nil pointer.
\<close>

definition TryPointerPointerScanPlan :: TryWrapScanPlanFunc where
  "TryPointerPointerScanPlan target =
     (case target of
        NilInterface \<Rightarrow> None
      | Dyn t d \<Rightarrow>
          if KindOf t = Ptr then
            (case d of
               ptr a \<Rightarrow>
                 (case Elem t of
                    Some et \<Rightarrow>
                      if KindOf et = Ptr
                      then Some (pointerPointerScanPlan t None, Dyn et nil)
                      else None
                  | None \<Rightarrow> None)
             | _ \<Rightarrow> None)
          else None)"

text \<open>
  \<open>planScan\<close>, lines 1064 to 1088: the plans chosen before any descriptor is looked up.
  In the text format a \<open>*[]byte\<close> target with the bytea OID leaves the switch without
  a plan.
\<close>

definition planScanFast :: "env \<Rightarrow> oid \<Rightarrow> format \<Rightarrow> iface \<Rightarrow> ScanPlan option" where
  "planScanFast E oid formatCode target =
     (if TypeOf target = Some (PtrTo UndecodedBytesT) then Some scanPlanAnyToUndecodedBytes
      else if formatCode = BinaryFormatCode then
        (if TypeOf target = Some ptrString \<and> (oid = TextOID \<or> oid = VarcharOID)
         then Some scanPlanString else None)
      else if formatCode = TextFormatCode then
        (if TypeOf target = Some ptrString then Some scanPlanString
         else if TypeOf target = Some ptrBytes then
           (if oid \<noteq> ByteaOID then Some scanPlanAnyTextToBytes else None)
         else if assertsTo E ''TextScanner'' target then Some scanPlanTextAnyToTextScanner
         else None)
      else None)"

text \<open>
  Lines 1090 to 1097: the descriptor, the OID used from here on, and the Map (which
  \<open>TypeForValue\<close> may have changed).
\<close>

definition planScanType :: "Map \<Rightarrow> oid \<Rightarrow> iface \<Rightarrow> Type option \<times> oid \<times> Map" where
  "planScanType m oid target =
     (case TypeForOID m oid of
        Some dt \<Rightarrow> (Some dt, oid, m)
      | None \<Rightarrow>
          (case TypeForValue m target of
             (Some dt, m') \<Rightarrow> (Some dt, OID dt, m')
           | (None, m') \<Rightarrow> (None, oid, m')))"

text \<open>Lines 1116 to 1130: the plans of last resort.\<close>

definition planScanLast :: "env \<Rightarrow> Type option \<Rightarrow> oid \<Rightarrow> format \<Rightarrow> iface \<Rightarrow> ScanPlan" where
  "planScanLast E dt oid formatCode target =
     (case dt of
        Some t \<Rightarrow>
          if TypeOf target = Some ptrAny
          then pointerEmptyInterfaceScanPlan (Codec t) oid formatCode
          else if assertsTo E ''sql.Scanner'' target
          then scanPlanCodecSQLScanner (Codec t) oid formatCode
          else scanPlanFail oid formatCode
      | None \<Rightarrow>
          if assertsTo E ''sql.Scanner'' target
          then scanPlanSQLScanner formatCode
          else scanPlanFail oid formatCode)"

text \<open>
  \<open>planScan\<close> and its loop over \<open>m.TryWrapScanPlanFuncs\<close> (lines 1105 to 1114). The
  recursion need not end (the wrappers are a field of the Map that callers may extend),
  so \<open>n\<close> bounds its depth: \<open>None\<close> means that the bound was reached. \<open>planScan\<close> never
  returns a nil plan, so the test \<open>nextPlan != nil\<close> of the loop always holds.

  A wrapper and a codec answer with a plan or with none. That one of them panics while
  planning (\<open>TryWrapStructScanPlan\<close> does on a nil pointer, where it asks the zero Value
  for its type) has no counterpart here, so nothing below is a statement that planning
  does not panic.
\<close>

function planScan :: "env \<Rightarrow> nat \<Rightarrow> Map \<Rightarrow> oid \<Rightarrow> format \<Rightarrow> iface \<Rightarrow> (ScanPlan \<times> Map) option"
  and planScanWrap :: "env \<Rightarrow> nat \<Rightarrow> Map \<Rightarrow> Type option \<Rightarrow> oid \<Rightarrow> format \<Rightarrow> iface
                         \<Rightarrow> TryWrapScanPlanFunc list \<Rightarrow> (ScanPlan \<times> Map) option"
  where
  "planScan E n m oid formatCode target =
     (case planScanFast E oid formatCode target of
        Some plan \<Rightarrow> Some (plan, m)
      | None \<Rightarrow>
          (case planScanType m oid target of
             (dt, oid', m1) \<Rightarrow>
               (case (case dt of
                        None \<Rightarrow> (None, m1)
                      | Some t \<Rightarrow> CodecPlanScan E (Codec t) m1 oid' formatCode target) of
                  (Some plan, m2) \<Rightarrow> Some (plan, m2)
                | (None, m2) \<Rightarrow>
                    planScanWrap E n m2 dt oid' formatCode target (TryWrapScanPlanFuncs m2))))"
| "planScanWrap E n m dt oid formatCode target [] =
     Some (planScanLast E dt oid formatCode target, m)"
| "planScanWrap E n m dt oid formatCode target (f # fs) =
     (case f target of
        None \<Rightarrow> planScanWrap E n m dt oid formatCode target fs
      | Some (wrapperPlan, nextDst) \<Rightarrow>
          (case n of
             0 \<Rightarrow> None
           | Suc k \<Rightarrow>
               (case planScan E k m oid formatCode nextDst of
                  None \<Rightarrow> None
                | Some (nextPlan, m') \<Rightarrow>
                    if isScanPlanFail nextPlan
                    then planScanWrap E n m' dt oid formatCode target fs
                    else Some (SetNext wrapperPlan nextPlan, m'))))"
  by pat_completeness auto
termination
  by (relation "inv_image (less_than <*lex*> less_than <*lex*> less_than)
        (\<lambda>x. case x of
           Inl (E, n, m, oid, fc, target) \<Rightarrow> (n, Suc 0, 0)
         | Inr (E, n, m, dt, oid, fc, target, fs) \<Rightarrow> (n, 0, length fs))")
     auto

declare planScan.simps [simp del]

text \<open>
  \<open>PlanScan\<close>. \<open>typeMemo[formatCode]\<close> indexes a \<open>[2]ScanPlan\<close> with an \<open>int16\<close>: outside
  0 and 1 it panics. The inner map \<open>oidMemo\<close> is held by reference; the model writes the
  entry into the inner map found under \<open>oid\<close> once \<open>planScan\<close> has returned, which is
  that same map unless a codec registered a type while planning. \<open>typeMemo\<close> is the
  copy of the array taken before planning.
\<close>

definition memoIndex :: "ScanPlan option \<times> ScanPlan option \<Rightarrow> format \<Rightarrow> panic + ScanPlan option" where
  "memoIndex typeMemo formatCode =
     (if sint formatCode < 0 \<or> 2 \<le> sint formatCode then Inl IndexOutOfRange
      else if sint formatCode = 0 then Inr (fst typeMemo) else Inr (snd typeMemo))"

definition memoStore :: "ScanPlan option \<times> ScanPlan option \<Rightarrow> format \<Rightarrow> ScanPlan option
                           \<Rightarrow> ScanPlan option \<times> ScanPlan option" where
  "memoStore typeMemo formatCode plan =
     (if sint formatCode = 0 then (plan, snd typeMemo) else (fst typeMemo, plan))"

definition oidMemoOf :: "Map \<Rightarrow> oid \<Rightarrow> (rtype option \<rightharpoonup> ScanPlan option \<times> ScanPlan option)" where
  "oidMemoOf m oid = (case memoizedScanPlans m oid of None \<Rightarrow> Map.empty | Some om \<Rightarrow> om)"

definition typeMemoOf :: "Map \<Rightarrow> oid \<Rightarrow> rtype option \<Rightarrow> ScanPlan option \<times> ScanPlan option" where
  "typeMemoOf m oid t = (case oidMemoOf m oid t of None \<Rightarrow> (None, None) | Some tm \<Rightarrow> tm)"

definition PlanScan :: "env \<Rightarrow> nat \<Rightarrow> Map \<Rightarrow> oid \<Rightarrow> format \<Rightarrow> iface
                          \<Rightarrow> (panic + (ScanPlan \<times> Map)) option" where
  "PlanScan E n m oid formatCode target =
     (let m1 = (case memoizedScanPlans m oid of
                  None \<Rightarrow> m\<lparr>memoizedScanPlans := (memoizedScanPlans m)(oid \<mapsto> Map.empty)\<rparr>
                | Some om \<Rightarrow> m);
          targetReflectType = TypeOf target;
          typeMemo = typeMemoOf m1 oid targetReflectType
      in case memoIndex typeMemo formatCode of
           Inl e \<Rightarrow> Some (Inl e)
         | Inr (Some plan) \<Rightarrow> Some (Inr (plan, m1))
         | Inr None \<Rightarrow>
             (case planScan E n m1 oid formatCode target of
                None \<Rightarrow> None
              | Some (plan, m2) \<Rightarrow>
                  Some (Inr (plan,
                    m2\<lparr>memoizedScanPlans :=
                         (memoizedScanPlans m2)
                           (oid \<mapsto> (oidMemoOf m2 oid)
                              (targetReflectType \<mapsto> memoStore typeMemo formatCode (Some plan)))\<rparr>))))"

subsection \<open>Encode plans\<close>

fun SetNextEncode :: "EncodePlan \<Rightarrow> EncodePlan \<Rightarrow> EncodePlan" where
  "SetNextEncode (derefPointerEncodePlan old) next = derefPointerEncodePlan (Some next)"
| "SetNextEncode (wrapEncodePlan w old) next = wrapEncodePlan w (Some next)"
| "SetNextEncode p next = p"

text \<open>\<open>PlanEncode\<close>, lines 1194 to 1201: the text format plans for strings and TextValuers.\<close>

definition planEncodeFast :: "env \<Rightarrow> format \<Rightarrow> iface \<Rightarrow> EncodePlan option" where
  "planEncodeFast E formatCode v =
     (if formatCode = TextFormatCode then
        (if TypeOf v = Some (Predeclared string_t) then Some encodePlanStringToAnyTextFormat
         else if assertsTo E ''TextValuer'' v then Some encodePlanTextValuerToAnyTextFormat
         else None)
      else None)"

text \<open>Lines 1203 to 1214: the descriptor, the OID used from here on, and the Map.\<close>

definition planEncodeType :: "Map \<Rightarrow> oid \<Rightarrow> iface \<Rightarrow> Type option \<times> oid \<times> Map" where
  "planEncodeType m oid v =
     (if oid = 0 then
        (case TypeForValue m v of
           (Some dt, m') \<Rightarrow> (Some dt, OID dt, m')
         | (None, m') \<Rightarrow> (None, oid, m'))
      else (TypeForOID m oid, oid, m))"

function PlanEncode :: "env \<Rightarrow> nat \<Rightarrow> Map \<Rightarrow> oid \<Rightarrow> format \<Rightarrow> iface \<Rightarrow> (EncodePlan option \<times> Map) option"
  and planEncodeWrap :: "env \<Rightarrow> nat \<Rightarrow> Map \<Rightarrow> oid \<Rightarrow> format \<Rightarrow> iface
                           \<Rightarrow> TryWrapEncodePlanFunc list \<Rightarrow> (EncodePlan option \<times> Map) option"
  where
  "PlanEncode E n m oid formatCode v =
     (case planEncodeFast E formatCode v of
        Some plan \<Rightarrow> Some (Some plan, m)
      | None \<Rightarrow>
          (case planEncodeType m oid v of
             (dt, oid', m1) \<Rightarrow>
               (case (case dt of
                        None \<Rightarrow> (None, m1)
                      | Some t \<Rightarrow> CodecPlanEncode E (Codec t) m1 oid' formatCode v) of
                  (Some plan, m2) \<Rightarrow> Some (Some plan, m2)
                | (None, m2) \<Rightarrow>
                    planEncodeWrap E n m2 oid' formatCode v (TryWrapEncodePlanFuncs m2))))"
| "planEncodeWrap E n m oid formatCode v [] = Some (None, m)"
| "planEncodeWrap E n m oid formatCode v (f # fs) =
     (case f v of
        None \<Rightarrow> planEncodeWrap E n m oid formatCode v fs
      | Some (wrapperPlan, nextValue) \<Rightarrow>
          (case n of
             0 \<Rightarrow> None
           | Suc k \<Rightarrow>
               (case PlanEncode E k m oid formatCode nextValue of
                  None \<Rightarrow> None
                | Some (None, m') \<Rightarrow> planEncodeWrap E n m' oid formatCode v fs
                | Some (Some nextPlan, m') \<Rightarrow> Some (Some (SetNextEncode wrapperPlan nextPlan), m'))))"
  by pat_completeness auto
termination
  by (relation "inv_image (less_than <*lex*> less_than <*lex*> less_than)
        (\<lambda>x. case x of
           Inl (E, n, m, oid, fc, v) \<Rightarrow> (n, Suc 0, 0)
         | Inr (E, n, m, oid, fc, v, fs) \<Rightarrow> (n, 0, length fs))")
     auto

declare PlanEncode.simps [simp del]

section \<open>Executing plans\<close>

subsection \<open>Memory\<close>

text \<open>
  Allocation takes the next unused address. \<open>store\<close> assigns through a pointer;
  \<open>array\<close> reads a backing array; \<open>sliceBytes\<close> is the content of a byte slice.
\<close>

definition alloc :: "obj \<Rightarrow> heap \<Rightarrow> addr \<times> heap" where
  "alloc ob h =
     (next_addr h, h\<lparr>cells := (cells h)(next_addr h \<mapsto> ob), next_addr := Suc (next_addr h)\<rparr>)"

definition store :: "addr \<Rightarrow> data \<Rightarrow> heap \<Rightarrow> heap" where
  "store a d h = h\<lparr>cells := (cells h)(a \<mapsto> Cell d)\<rparr>"

definition array :: "heap \<Rightarrow> addr \<Rightarrow> 8 word list" where
  "array h a = (case cells h a of Some (Bytes bs) \<Rightarrow> bs | _ \<Rightarrow> [])"

fun sliceLen :: "slice \<Rightarrow> nat" where
  "sliceLen nil_slice = 0"
| "sliceLen (SliceHdr a off len cap) = len"

fun sliceBytes :: "heap \<Rightarrow> slice \<Rightarrow> 8 word list" where
  "sliceBytes h nil_slice = []"
| "sliceBytes h (SliceHdr a off len cap) = take len (drop off (array h a))"

text \<open>Every allocated address lies below the next unused one.\<close>

definition wf_heap :: "heap \<Rightarrow> bool" where
  "wf_heap h \<longleftrightarrow> (\<forall>a. cells h a \<noteq> None \<longrightarrow> a < next_addr h)"


text \<open>\<open>make([]byte, n)\<close>: a new zeroed array and a slice over the whole of it.\<close>

definition makeBytes :: "nat \<Rightarrow> heap \<Rightarrow> slice \<times> heap" where
  "makeBytes n h = (case alloc (Bytes (replicate n 0)) h of (a, h') \<Rightarrow> (SliceHdr a 0 n n, h'))"

text \<open>\<open>copy(dst, src)\<close> writes the first \<open>min(len(dst), len(src))\<close> bytes of \<open>src\<close> over \<open>dst\<close>.\<close>

fun copyBytes :: "slice \<Rightarrow> slice \<Rightarrow> heap \<Rightarrow> heap" where
  "copyBytes (SliceHdr da doff dlen dcap) src h =
     (let k = min dlen (sliceLen src);
          bs = take k (sliceBytes h src);
          old = array h da
      in h\<lparr>cells := (cells h)(da \<mapsto> Bytes (take doff old @ bs @ drop (doff + k) old))\<rparr>)"
| "copyBytes nil_slice src h = h"

text \<open>\<open>reflect.Zero\<close>: the zero value of a type, by its kind.\<close>

definition zeroValue :: "rtype \<Rightarrow> data" where
  "zeroValue t =
     (case KindOf t of
        Ptr \<Rightarrow> nil
      | Interface \<Rightarrow> nil
      | Slice \<Rightarrow> sl nil_slice
      | String \<Rightarrow> str []
      | _ \<Rightarrow> scalar 0)"

subsection \<open>The Scan methods of the plans\<close>

text \<open>
  The \<open>Scan\<close> methods written in pgtype.go that the claims speak of, and \<open>OtherScan\<close>
  for the plans whose \<open>Scan\<close> runs code of other files (codecs, \<open>sql.Scanner\<close>
  implementations, the wrappers of builtin_wrappers.go).

  \<open>scanPlanString\<close> tests \<open>src == nil\<close> before it asserts the type of \<open>dst\<close>;
  \<open>scanPlanAnyTextToBytes\<close> asserts first. Assigning through a nil pointer panics.

  \<open>pointerPointerScanPlan\<close>: \<open>reflect.ValueOf(dst).Elem()\<close> panics unless \<open>dst\<close> is a
  pointer; of a nil pointer it is the zero Value, on which \<open>Type\<close> panics.
  \<open>el.Type().Elem()\<close> followed by \<open>el.Set(reflect.New(...))\<close> succeeds only when the
  element is itself of pointer kind. A plan whose \<open>next\<close> was never set panics on the
  call of \<open>plan.next.Scan\<close>.
\<close>

fun ScanPlan_Scan :: "env \<Rightarrow> ScanPlan \<Rightarrow> Map \<Rightarrow> slice \<Rightarrow> iface \<Rightarrow> heap
                        \<Rightarrow> panic + (error option \<times> Map \<times> heap)" where
  "ScanPlan_Scan E scanPlanString m src dst h =
     (if src = nil_slice then Inr (Some (ErrCannotScanNull (TypeOf dst)), m, h)
      else if TypeOf dst \<noteq> Some ptrString then Inl TypeAssertionFailed
      else (case dst of
              Dyn t (ptr a) \<Rightarrow> Inr (None, m, store a (str (sliceBytes h src)) h)
            | _ \<Rightarrow> Inl NilDereference))"
| "ScanPlan_Scan E scanPlanAnyTextToBytes m src dst h =
     (if TypeOf dst \<noteq> Some ptrBytes then Inl TypeAssertionFailed
      else if src = nil_slice then
        (case dst of
           Dyn t (ptr a) \<Rightarrow> Inr (None, m, store a (sl nil_slice) h)
         | _ \<Rightarrow> Inl NilDereference)
      else
        (case makeBytes (sliceLen src) h of
           (buf, h1) \<Rightarrow>
             (case dst of
                Dyn t (ptr a) \<Rightarrow> Inr (None, m, copyBytes buf src (store a (sl buf) h1))
              | _ \<Rightarrow> Inl NilDereference)))"
| "ScanPlan_Scan E (scanPlanFail oid formatCode) m src dst h =
     Inr (Some (ErrCannotScanOID oid formatCode (TypeOf dst)), m, h)"
| "ScanPlan_Scan E (pointerPointerScanPlan dstType next) m src dst h =
     (case dst of
        NilInterface \<Rightarrow> Inl ReflectPanic
      | Dyn t d \<Rightarrow>
          if KindOf t \<noteq> Ptr then Inl ReflectPanic
          else
            (case d of
               ptr a \<Rightarrow>
                 (case Elem t of
                    None \<Rightarrow> Inl ReflectPanic
                  | Some et \<Rightarrow>
                      if src = nil_slice then Inr (None, m, store a (zeroValue et) h)
                      else if KindOf et \<noteq> Ptr then Inl ReflectPanic
                      else
                        (case Elem et of
                           None \<Rightarrow> Inl ReflectPanic
                         | Some pt \<Rightarrow>
                             (case alloc (Cell (zeroValue pt)) h of
                                (b, h1) \<Rightarrow>
                                  (case next of
                                     None \<Rightarrow> Inl NilDereference
                                   | Some nextPlan \<Rightarrow>
                                       ScanPlan_Scan E nextPlan m src (Dyn et (ptr b))
                                         (store a (ptr b) h1)))))
             | _ \<Rightarrow> Inl ReflectPanic))"
| "ScanPlan_Scan E plan m src dst h = OtherScan E plan m src dst h"

subsection \<open>Map.Scan and Map.Encode\<close>

definition Scan :: "env \<Rightarrow> nat \<Rightarrow> Map \<Rightarrow> oid \<Rightarrow> format \<Rightarrow> slice \<Rightarrow> iface \<Rightarrow> heap
                      \<Rightarrow> (panic + (error option \<times> Map \<times> heap)) option" where
  "Scan E n m oid formatCode src dst h =
     (if dst = NilInterface then Some (Inr (None, m, h))
      else
        (case PlanScan E n m oid formatCode dst of
           None \<Rightarrow> None
         | Some (Inl e) \<Rightarrow> Some (Inl e)
         | Some (Inr (plan, m')) \<Rightarrow> Some (ScanPlan_Scan E plan m' src dst h)))"

text \<open>
  \<open>Encode\<close> returns \<open>(newBuf, err)\<close>. When no plan is found and the value is a
  \<open>driver.Valuer\<close>, \<open>Encode\<close> calls itself on what \<open>Value()\<close> returns; that recursion
  need not end either, so \<open>n\<close> bounds it as well. The test \<open>dv == nil\<close> is kept as the
  source has it.
\<close>

fun Encode :: "env \<Rightarrow> nat \<Rightarrow> Map \<Rightarrow> oid \<Rightarrow> format \<Rightarrow> iface \<Rightarrow> slice \<Rightarrow> heap
                 \<Rightarrow> (panic + ((slice \<times> error option) \<times> Map \<times> heap)) option" where
  "Encode E n m oid formatCode v buf h =
     (if v = NilInterface then Some (Inr ((nil_slice, None), m, h))
      else
        (case PlanEncode E n m oid formatCode v of
           None \<Rightarrow> None
         | Some (None, m1) \<Rightarrow>
             if assertsTo E ''driver.Valuer'' v then
               (if v = NilInterface then Some (Inr ((nil_slice, None), m1, h))
                else
                  (case ValuerValue E v m1 h of
                     Inl e \<Rightarrow> Some (Inl e)
                   | Inr (v', Some err) \<Rightarrow> Some (Inr ((nil_slice, Some err), m1, h))
                   | Inr (v', None) \<Rightarrow>
                       (case n of
                          0 \<Rightarrow> None
                        | Suc k \<Rightarrow> Encode E k m1 oid formatCode v' buf h)))
             else Some (Inr ((nil_slice, Some (ErrUnableToEncode v oid)), m1, h))
         | Some (Some plan, m1) \<Rightarrow> Some (PlanEncodeRun E plan m1 v buf h)))"

declare Encode.simps [simp del]

section \<open>Notions used to state the properties\<close>

text \<open>
  The plan memoized for an identifier, a destination type and a format code: the slot
  that \<open>PlanScan\<close> tests before it plans (\<open>None\<close> when it is nil or does not exist).
\<close>

definition memoSlot :: "Map \<Rightarrow> oid \<Rightarrow> rtype option \<Rightarrow> format \<Rightarrow> ScanPlan option" where
  "memoSlot m oid t formatCode =
     (case memoIndex (typeMemoOf m oid t) formatCode of Inl e \<Rightarrow> None | Inr p \<Rightarrow> p)"

text \<open>Every memoized plan of \<open>m\<close> is still memoized in \<open>m'\<close>.\<close>

definition memoKept :: "Map \<Rightarrow> Map \<Rightarrow> bool" where
  "memoKept m m' \<longleftrightarrow>
     (\<forall>oid t formatCode p. memoSlot m oid t formatCode = Some p
        \<longrightarrow> memoSlot m' oid t formatCode = Some p)"

text \<open>
  The codecs never drop a memoized plan while they plan: they may plan other values
  through the Map, they do not register.
\<close>

definition codecsKeepMemo :: "env \<Rightarrow> bool" where
  "codecsKeepMemo E \<longleftrightarrow>
     (\<forall>c m oid formatCode v. memoKept m (snd (CodecPlanScan E c m oid formatCode v)))"

text \<open>
  A run of \<open>PlanScan\<close> calls, each on the Map the one before left; \<open>None\<close> when one of
  them does not return a plan.
\<close>

fun PlanScans :: "env \<Rightarrow> nat \<Rightarrow> Map \<Rightarrow> (oid \<times> format \<times> iface) list \<Rightarrow> Map option" where
  "PlanScans E n m [] = Some m"
| "PlanScans E n m ((oid, formatCode, target) # rs) =
     (case PlanScan E n m oid formatCode target of
        Some (Inr (plan, m')) \<Rightarrow> PlanScans E n m' rs
      | _ \<Rightarrow> None)"

text \<open>
  Resolution by identifier alone, as a statement to compare \<open>PlanEncode\<close> with: the
  same function, except that the descriptor is always the one registered under the OID
  and \<open>TypeForValue\<close> is never consulted, at any depth.
\<close>

function PlanEncodeByOID :: "env \<Rightarrow> nat \<Rightarrow> Map \<Rightarrow> oid \<Rightarrow> format \<Rightarrow> iface
                                 \<Rightarrow> (EncodePlan option \<times> Map) option"
  and planEncodeWrapByOID :: "env \<Rightarrow> nat \<Rightarrow> Map \<Rightarrow> oid \<Rightarrow> format \<Rightarrow> iface
                                \<Rightarrow> TryWrapEncodePlanFunc list \<Rightarrow> (EncodePlan option \<times> Map) option"
  where
  "PlanEncodeByOID E n m oid formatCode v =
     (case planEncodeFast E formatCode v of
        Some plan \<Rightarrow> Some (Some plan, m)
      | None \<Rightarrow>
          (case (case TypeForOID m oid of
                   None \<Rightarrow> (None, m)
                 | Some t \<Rightarrow> CodecPlanEncode E (Codec t) m oid formatCode v) of
             (Some plan, m2) \<Rightarrow> Some (Some plan, m2)
           | (None, m2) \<Rightarrow>
               planEncodeWrapByOID E n m2 oid formatCode v (TryWrapEncodePlanFuncs m2)))"
| "planEncodeWrapByOID E n m oid formatCode v [] = Some (None, m)"
| "planEncodeWrapByOID E n m oid formatCode v (f # fs) =
     (case f v of
        None \<Rightarrow> planEncodeWrapByOID E n m oid formatCode v fs
      | Some (wrapperPlan, nextValue) \<Rightarrow>
          (case n of
             0 \<Rightarrow> None
           | Suc k \<Rightarrow>
               (case PlanEncodeByOID E k m oid formatCode nextValue of
                  None \<Rightarrow> None
                | Some (None, m') \<Rightarrow> planEncodeWrapByOID E n m' oid formatCode v fs
                | Some (Some nextPlan, m') \<Rightarrow> Some (Some (SetNextEncode wrapperPlan nextPlan), m'))))"
  by pat_completeness auto
termination
  by (relation "inv_image (less_than <*lex*> less_than <*lex*> less_than)
        (\<lambda>x. case x of
           Inl (E, n, m, oid, fc, v) \<Rightarrow> (n, Suc 0, 0)
         | Inr (E, n, m, oid, fc, v, fs) \<Rightarrow> (n, 0, length fs))")
     auto

declare PlanEncodeByOID.simps [simp del]

subsection \<open>Example registrations\<close>

text \<open>
  Concrete descriptors and codecs used to evaluate the definitions: every codec of the
  example prefers the text format, except codec 1, which prefers binary.
\<close>

definition exPreferred :: "codec \<Rightarrow> format" where
  "exPreferred c = (if c = 1 then BinaryFormatCode else TextFormatCode)"

definition exTypeA :: Type where
  "exTypeA = \<lparr>Codec = 0, Name = ''a'', OID = 1\<rparr>"

definition exTypeB :: Type where
  "exTypeB = \<lparr>Codec = 0, Name = ''b'', OID = 1\<rparr>"

definition exTypeA2 :: Type where
  "exTypeA2 = \<lparr>Codec = 1, Name = ''a'', OID = 1\<rparr>"

definition exTypeC :: Type where
  "exTypeC = \<lparr>Codec = 0, Name = ''c'', OID = 2\<rparr>"


text \<open>
  An environment to evaluate the planners in: the codec of a descriptor plans every
  value and names the OID it was asked for in the plan it returns; no type implements
  any interface; the plans of other files do nothing.
\<close>

definition exEnv :: env where
  "exEnv = \<lparr>CodecPlanScan = (\<lambda>c m oid fc v. (Some (codecScanPlan (unat oid)), m)),
            CodecPlanEncode = (\<lambda>c m oid fc v. (Some (codecEncodePlan (unat oid)), m)),
            implements = (\<lambda>I t. False),
            ValuerValue = (\<lambda>v m h. Inr (NilInterface, None)),
            OtherScan = (\<lambda>p m src dst h. Inr (None, m, h)),
            PlanEncodeRun = (\<lambda>p m v buf h. Inr ((buf, None), m, h))\<rparr>"

text \<open>
  A Map with one descriptor registered, a destination of type \<open>*int32\<close>, and the Maps
  left by a first \<open>PlanScan\<close> call and by two further calls.
\<close>

definition exMap :: Map where
  "exMap = RegisterType exPreferred (emptyMap [] []) exTypeC"

definition exTarget :: iface where
  "exTarget = Dyn (PtrTo (Predeclared int32_t)) (ptr 0)"

definition exMap1 :: Map where
  "exMap1 = exMap\<lparr>memoizedScanPlans :=
     [2 \<mapsto> [Some (PtrTo (Predeclared int32_t)) \<mapsto> (None, Some (codecScanPlan 2))]]\<rparr>"

definition exRequests :: "(oid \<times> format \<times> iface) list" where
  "exRequests = [(2, 0, exTarget), (7, 1, NilInterface)]"

definition exMap2 :: Map where
  "exMap2 = exMap\<lparr>reflectTypeToType := Some Map.empty,
     memoizedScanPlans :=
       [2 \<mapsto> [Some (PtrTo (Predeclared int32_t)) \<mapsto> (Some (codecScanPlan 2), Some (codecScanPlan 2))],
        7 \<mapsto> [None \<mapsto> (None, Some (scanPlanFail 7 1))]]\<rparr>"

text \<open>The same Map with the shape \<open>*int32\<close> mapped to the name of its descriptor.\<close>

definition exMapInfer :: Map where
  "exMapInfer = RegisterDefaultPgType exMap (Dyn (PtrTo (Predeclared int32_t)) nil) ''c''"

text \<open>
  An environment in which the type \<open>V\<close> is a \<open>driver.Valuer\<close> whose \<open>Value()\<close> is the
  empty string, and no codec plans anything; a memory holding a nil \<open>[]byte\<close> variable
  at address 0 and the bytes \<open>hi\<close> at address 1; a memory holding a nil pointer
  variable at address 0 and the same bytes.
\<close>

definition exValuerEnv :: env where
  "exValuerEnv =
     \<lparr>CodecPlanScan = (\<lambda>c m oid fc v. (None, m)),
      CodecPlanEncode = (\<lambda>c m oid fc v. (None, m)),
      implements = (\<lambda>I t. I = ''driver.Valuer'' \<and> t = Named ''V'' (Predeclared int64_t)),
      ValuerValue = (\<lambda>v m h. Inr (Dyn (Predeclared string_t) (str []), None)),
      OtherScan = (\<lambda>p m src dst h. Inr (None, m, h)),
      PlanEncodeRun = (\<lambda>p m v buf h. Inr ((buf, None), m, h))\<rparr>"

definition exValuer :: iface where
  "exValuer = Dyn (Named ''V'' (Predeclared int64_t)) (scalar 0)"

definition exHeap :: heap where
  "exHeap = \<lparr>cells = [0 \<mapsto> Cell (sl nil_slice), 1 \<mapsto> Bytes [104, 105]], next_addr = 2\<rparr>"

definition exSrc :: slice where
  "exSrc = SliceHdr 1 0 2 2"

definition exPtrHeap :: heap where
  "exPtrHeap = \<lparr>cells = [0 \<mapsto> Cell nil, 1 \<mapsto> Bytes [104, 105]], next_addr = 2\<rparr>"

definition exPtrPtr :: iface where
  "exPtrPtr = Dyn (PtrTo (PtrTo (Predeclared int32_t))) (ptr 0)"

section \<open>Properties of the registry\<close>

lemma registers_keeps_oid:
  "\<forall>r \<in> set rs. \<not> registersOID i r \<Longrightarrow>
   oidToType (registers pf m rs) i = oidToType m i \<and>
   oidToFormatCode (registers pf m rs) i = oidToFormatCode m i"
proof (induction rs arbitrary: m)
  case Nil
  then show ?case by simp
next
  case (Cons r rs)
  then show ?case
    by (cases r) (auto simp: RegisterType_def RegisterDefaultPgType_def)
qed

lemma indexesConsistent_emptyMap: "indexesConsistent (emptyMap ews sws)"
  by (simp add: indexesConsistent_def emptyMap_def)

text \<open>
  C1 (as stated, refuted). Registering \<open>exTypeA\<close> and then \<open>exTypeB\<close>, which has the
  same identifier 1 and another name, leaves the lookup by the old name answering the
  old descriptor, and the two indexes disagree.
\<close>

theorem C1_old_name_survives:
  "OID exTypeA = OID exTypeB \<and>
   TypeForName (RegisterType exPreferred (RegisterType exPreferred (emptyMap [] []) exTypeA) exTypeB)
     ''a'' = Some exTypeA \<and>
   exTypeA \<noteq> exTypeB \<and>
   \<not> indexesConsistent
       (RegisterType exPreferred (RegisterType exPreferred (emptyMap [] []) exTypeA) exTypeB)"
proof -
  let ?m = "RegisterType exPreferred (RegisterType exPreferred (emptyMap [] []) exTypeA) exTypeB"
  have n: "nameToType ?m ''a'' = Some exTypeA"
    by (simp add: RegisterType_def emptyMap_def exTypeA_def exTypeB_def)
  have o: "oidToType ?m (OID exTypeA) = Some exTypeB"
    by (simp add: RegisterType_def emptyMap_def exTypeA_def exTypeB_def)
  have d: "exTypeA \<noteq> exTypeB"
    by (simp add: exTypeA_def exTypeB_def)
  have "\<not> indexesConsistent ?m"
  proof
    assume "indexesConsistent ?m"
    with n have "oidToType ?m (OID exTypeA) = Some exTypeA"
      unfolding indexesConsistent_def by blast
    with o d show False by simp
  qed
  with n d show ?thesis
    by (simp add: TypeForName_def exTypeA_def exTypeB_def)
qed

text \<open>
  C1 (amended). After \<open>RegisterType(t1)\<close> and \<open>RegisterType(t2)\<close> with the same
  identifier: the lookup by the identifier and the lookup by the name of \<open>t2\<close> answer
  \<open>t2\<close>, the recorded format is the one \<open>t2\<close>'s codec prefers, the scan-plan memo is
  empty and the shape index is discarded. The entry under the name of \<open>t1\<close> is replaced
  exactly when \<open>t2\<close> has that name too. When it has, and the indexes agreed before, and
  no other descriptor was stored under that identifier or that name, the indexes agree
  afterwards.
\<close>

theorem C1_reregister:
  assumes "OID t1 = OID t2"
  shows "TypeForOID (RegisterType pf (RegisterType pf m t1) t2) (OID t1) = Some t2 \<and>
         TypeForName (RegisterType pf (RegisterType pf m t1) t2) (Name t2) = Some t2 \<and>
         TypeForName (RegisterType pf (RegisterType pf m t1) t2) (Name t1)
           = Some (if Name t1 = Name t2 then t2 else t1) \<and>
         FormatCodeForOID (RegisterType pf (RegisterType pf m t1) t2) (OID t1) = pf (Codec t2) \<and>
         memoizedScanPlans (RegisterType pf (RegisterType pf m t1) t2) = Map.empty \<and>
         reflectTypeToType (RegisterType pf (RegisterType pf m t1) t2) = None \<and>
         (Name t1 = Name t2 \<and> indexesConsistent m \<and>
          (\<forall>t. oidToType m (OID t2) = Some t \<longrightarrow> Name t = Name t2) \<and>
          (\<forall>t. nameToType m (Name t2) = Some t \<longrightarrow> OID t = OID t2)
          \<longrightarrow> indexesConsistent (RegisterType pf (RegisterType pf m t1) t2))"
proof -
  let ?m' = "RegisterType pf (RegisterType pf m t1) t2"
  have lookups:
    "TypeForOID ?m' (OID t1) = Some t2"
    "TypeForName ?m' (Name t2) = Some t2"
    "TypeForName ?m' (Name t1) = Some (if Name t1 = Name t2 then t2 else t1)"
    "FormatCodeForOID ?m' (OID t1) = pf (Codec t2)"
    "memoizedScanPlans ?m' = Map.empty"
    "reflectTypeToType ?m' = None"
    using assms
    by (simp_all add: RegisterType_def TypeForOID_def TypeForName_def FormatCodeForOID_def)
  have cons: "indexesConsistent ?m'"
    if same: "Name t1 = Name t2" and c: "indexesConsistent m"
      and io: "\<forall>t. oidToType m (OID t2) = Some t \<longrightarrow> Name t = Name t2"
      and ni: "\<forall>t. nameToType m (Name t2) = Some t \<longrightarrow> OID t = OID t2"
  proof -
    have o: "oidToType ?m' = (oidToType m)(OID t2 \<mapsto> t2)"
      using assms by (simp add: RegisterType_def)
    have n: "nameToType ?m' = (nameToType m)(Name t2 \<mapsto> t2)"
      using same by (simp add: RegisterType_def)
    have a: "OID t = i \<and> nameToType ?m' (Name t) = Some t"
      if h: "oidToType ?m' i = Some t" for i t
    proof (cases "i = OID t2")
      case True
      with h o have "t = t2" by simp
      with True n show ?thesis by simp
    next
      case False
      with h o have old: "oidToType m i = Some t" by simp
      with c have k: "OID t = i" and nm: "nameToType m (Name t) = Some t"
        unfolding indexesConsistent_def by blast+
      have "Name t \<noteq> Name t2"
      proof
        assume "Name t = Name t2"
        with nm ni have "OID t = OID t2" by auto
        with k False show False by simp
      qed
      with nm n k show ?thesis by simp
    qed
    have b: "Name t = k \<and> oidToType ?m' (OID t) = Some t"
      if h: "nameToType ?m' k = Some t" for k t
    proof (cases "k = Name t2")
      case True
      with h n have "t = t2" by simp
      with True o show ?thesis by simp
    next
      case False
      with h n have old: "nameToType m k = Some t" by simp
      with c have k: "Name t = k" and om: "oidToType m (OID t) = Some t"
        unfolding indexesConsistent_def by blast+
      have "OID t \<noteq> OID t2"
      proof
        assume "OID t = OID t2"
        with om io have "Name t = Name t2" by auto
        with k False show False by simp
      qed
      with om o k show ?thesis by simp
    qed
    from a b show ?thesis
      unfolding indexesConsistent_def by blast
  qed
  from lookups cons show ?thesis by blast
qed

theorem C1_reregister_witness:
  "OID exTypeA = OID exTypeA2 \<and> Name exTypeA = Name exTypeA2 \<and>
   indexesConsistent (emptyMap [] []) \<and>
   TypeForOID (RegisterType exPreferred (RegisterType exPreferred (emptyMap [] []) exTypeA) exTypeA2) 1
     = Some exTypeA2 \<and>
   TypeForName (RegisterType exPreferred (RegisterType exPreferred (emptyMap [] []) exTypeA) exTypeA2) ''a''
     = Some exTypeA2 \<and>
   FormatCodeForOID (RegisterType exPreferred (RegisterType exPreferred (emptyMap [] []) exTypeA) exTypeA2) 1
     = BinaryFormatCode \<and>
   indexesConsistent
     (RegisterType exPreferred (RegisterType exPreferred (emptyMap [] []) exTypeA) exTypeA2)"
proof -
  have h: "OID exTypeA = OID exTypeA2"
    by (simp add: exTypeA_def exTypeA2_def)
  have e: "oidToType (emptyMap [] []) = Map.empty" "nameToType (emptyMap [] []) = Map.empty"
    by (simp_all add: emptyMap_def)
  have v: "OID exTypeA = 1" "OID exTypeA2 = 1" "Name exTypeA2 = ''a''" "Name exTypeA = ''a''"
    "Codec exTypeA2 = 1"
    by (simp_all add: exTypeA_def exTypeA2_def)
  show ?thesis
    using C1_reregister [OF h, of exPreferred "emptyMap [] []"]
      indexesConsistent_emptyMap [of "[]" "[]"]
    by (simp add: e v exPreferred_def)
qed

text \<open>
  C4. After \<open>RegisterType(d)\<close> and any later registrations, none of them a
  \<open>RegisterType\<close> under the identifier of \<open>d\<close>, \<open>TypeForOID\<close> answers \<open>d\<close> and
  \<open>FormatCodeForOID\<close> answers what the codec of \<open>d\<close> prefers. For an identifier with no
  recorded format and no registration under it, \<open>FormatCodeForOID\<close> answers the text
  format code.
\<close>

theorem C4_lookup_after_register:
  "((\<forall>r \<in> set rs. \<not> registersOID (OID d) r) \<longrightarrow>
      TypeForOID (registers pf (RegisterType pf m d) rs) (OID d) = Some d \<and>
      FormatCodeForOID (registers pf (RegisterType pf m d) rs) (OID d) = pf (Codec d)) \<and>
   (oidToFormatCode m i = None \<and> (\<forall>r \<in> set rs. \<not> registersOID i r) \<longrightarrow>
      FormatCodeForOID (registers pf m rs) i = TextFormatCode \<and> TextFormatCode = 0)"
proof -
  have "oidToType (RegisterType pf m d) (OID d) = Some d"
    and "oidToFormatCode (RegisterType pf m d) (OID d) = Some (pf (Codec d))"
    by (simp_all add: RegisterType_def)
  then show ?thesis
    using registers_keeps_oid [of rs "OID d" pf "RegisterType pf m d"]
      registers_keeps_oid [of rs i pf m]
    by (simp add: TypeForOID_def FormatCodeForOID_def TextFormatCode_def)
qed

theorem C4_lookup_after_register_witness:
  "\<not> registersOID (OID exTypeA2) (RegType exTypeC) \<and>
   \<not> registersOID (OID exTypeA2) (RegDefault NilInterface ''a'') \<and>
   TypeForOID (registers exPreferred (RegisterType exPreferred (emptyMap [] []) exTypeA2)
       [RegType exTypeC, RegDefault NilInterface ''a'']) 1 = Some exTypeA2 \<and>
   FormatCodeForOID (registers exPreferred (RegisterType exPreferred (emptyMap [] []) exTypeA2)
       [RegType exTypeC, RegDefault NilInterface ''a'']) 1 = BinaryFormatCode \<and>
   oidToFormatCode (emptyMap [] []) 7 = None \<and>
   \<not> registersOID 7 (RegType exTypeC) \<and>
   \<not> registersOID 7 (RegDefault NilInterface ''a'') \<and>
   FormatCodeForOID (registers exPreferred (emptyMap [] [])
       [RegType exTypeC, RegDefault NilInterface ''a'']) 7 = 0"
proof -
  have v: "OID exTypeA2 = 1" "OID exTypeC = 2" "Codec exTypeA2 = 1"
    by (simp_all add: exTypeA2_def exTypeC_def)
  have p: "\<forall>r \<in> set [RegType exTypeC, RegDefault NilInterface ''a'']. \<not> registersOID 1 r"
    by (simp add: v)
  have q: "\<forall>r \<in> set [RegType exTypeC, RegDefault NilInterface ''a'']. \<not> registersOID 7 r"
    by (simp add: v)
  have e: "oidToFormatCode (emptyMap [] []) 7 = None"
    by (simp add: emptyMap_def)
  show ?thesis
    using C4_lookup_after_register [of "[RegType exTypeC, RegDefault NilInterface ''a'']"
        exTypeA2 exPreferred "emptyMap [] []" 7] p q e
    by (simp add: v exPreferred_def TextFormatCode_def)
qed

section \<open>Properties of the scan-plan memo\<close>

lemma sint_format_0: "sint (fc :: format) = 0 \<longleftrightarrow> fc = 0"
  by (simp add: signed_eq_0_iff)

lemma sint_format_1: "sint (fc :: format) = 1 \<longleftrightarrow> fc = 1"
  using word_eq_iff_signed by fastforce

lemma sint_format_range:
  "(sint (fc :: format) < 0 \<or> 2 \<le> sint fc) \<longleftrightarrow> (fc \<noteq> 0 \<and> fc \<noteq> 1)"
proof -
  have "sint fc = 0 \<or> sint fc = 1 \<longleftrightarrow> \<not> (sint fc < 0 \<or> 2 \<le> sint fc)"
    by arith
  then show ?thesis
    by (auto simp: sint_format_0 sint_format_1)
qed

lemma memoIndex_valid:
  "memoIndex tm 0 = Inr (fst tm)" "memoIndex tm 1 = Inr (snd tm)"
  by (simp_all add: memoIndex_def)

lemma memoIndex_invalid: "fc \<noteq> 0 \<Longrightarrow> fc \<noteq> 1 \<Longrightarrow> memoIndex tm fc = Inl IndexOutOfRange"
  using sint_format_range [of fc] by (simp add: memoIndex_def)

lemma memoIndex_cases:
  "memoIndex tm fc = (if fc = 0 then Inr (fst tm) else if fc = 1 then Inr (snd tm)
                      else Inl IndexOutOfRange)"
  by (simp add: memoIndex_valid memoIndex_invalid)

lemma memoIndex_memoStore:
  "fc = 0 \<or> fc = 1 \<Longrightarrow> memoIndex (memoStore tm fc p) fc' =
     (if fc' = fc then Inr p else memoIndex tm fc')"
  by (auto simp: memoIndex_cases memoStore_def sint_format_0)

lemma PlanScan_invalid:
  "fc \<noteq> 0 \<Longrightarrow> fc \<noteq> 1 \<Longrightarrow> PlanScan E n m oid fc target = Some (Inl IndexOutOfRange)"
  by (simp add: PlanScan_def Let_def memoIndex_cases)

lemma PlanScan_Inr_valid:
  "PlanScan E n m oid fc target = Some (Inr r) \<Longrightarrow> fc = 0 \<or> fc = 1"
  using PlanScan_invalid [of fc E n m oid target] by auto

lemma memoSlot_fresh_inner:
  "memoizedScanPlans m oid = None \<Longrightarrow>
   memoSlot (m\<lparr>memoizedScanPlans := (memoizedScanPlans m)(oid \<mapsto> Map.empty)\<rparr>) oid' t fc
     = memoSlot m oid' t fc"
  by (simp add: memoSlot_def typeMemoOf_def oidMemoOf_def)

lemma memoSlot_write:
  "memoSlot (m\<lparr>memoizedScanPlans :=
       (memoizedScanPlans m)(oid \<mapsto> (oidMemoOf m oid)(t \<mapsto> tm))\<rparr>) oid' t' fc
     = (if oid' = oid \<and> t' = t
        then (case memoIndex tm fc of Inl e \<Rightarrow> None | Inr p \<Rightarrow> p)
        else memoSlot m oid' t' fc)"
  by (simp add: memoSlot_def typeMemoOf_def oidMemoOf_def)

lemma memoSlot_Some_inner:
  "memoSlot m oid t fc = Some p \<Longrightarrow> memoizedScanPlans m oid \<noteq> None"
  by (auto simp: memoSlot_def typeMemoOf_def oidMemoOf_def memoIndex_cases
      split: if_splits option.splits)

lemma memoSlot_Some_index:
  "memoSlot m oid t fc = Some p \<Longrightarrow> memoIndex (typeMemoOf m oid t) fc = Inr (Some p)"
  by (auto simp: memoSlot_def split: sum.splits)

lemma PlanScan_hit:
  assumes "memoSlot m oid (TypeOf target) fc = Some p"
  shows "PlanScan E n m oid fc target = Some (Inr (p, m))"
  using memoSlot_Some_inner [OF assms] memoSlot_Some_index [OF assms]
  by (auto simp: PlanScan_def Let_def)


lemma typeMemoOf_fresh_inner:
  "memoizedScanPlans m oid = None \<Longrightarrow>
   typeMemoOf (m\<lparr>memoizedScanPlans := (memoizedScanPlans m)(oid \<mapsto> Map.empty)\<rparr>) oid' t
     = typeMemoOf m oid' t"
  by (simp add: typeMemoOf_def oidMemoOf_def)

lemma PlanScan_miss:
  assumes v: "fc = 0 \<or> fc = 1" and miss: "memoSlot m oid (TypeOf target) fc = None"
  shows "PlanScan E n m oid fc target =
     (case planScan E n
             (case memoizedScanPlans m oid of
                None \<Rightarrow> m\<lparr>memoizedScanPlans := (memoizedScanPlans m)(oid \<mapsto> Map.empty)\<rparr>
              | Some om \<Rightarrow> m) oid fc target of
        None \<Rightarrow> None
      | Some (plan, m2) \<Rightarrow>
          Some (Inr (plan,
            m2\<lparr>memoizedScanPlans :=
                 (memoizedScanPlans m2)
                   (oid \<mapsto> (oidMemoOf m2 oid)
                      (TypeOf target \<mapsto>
                         memoStore (typeMemoOf m oid (TypeOf target)) fc (Some plan)))\<rparr>)))"
proof -
  have i: "memoIndex (typeMemoOf m oid (TypeOf target)) fc = Inr None"
    using v miss by (auto simp: memoSlot_def memoIndex_cases)
  show ?thesis
  proof (cases "memoizedScanPlans m oid")
    case None
    then show ?thesis
      using i by (simp add: PlanScan_def Let_def typeMemoOf_fresh_inner cong: option.case_cong)
  next
    case (Some om)
    then show ?thesis
      using i by (simp add: PlanScan_def Let_def)
  qed
qed

lemma PlanScan_fills:
  assumes "PlanScan E n m oid fc target = Some (Inr (p, m'))"
  shows "memoSlot m' oid (TypeOf target) fc = Some p"
proof -
  have v: "fc = 0 \<or> fc = 1"
    using assms by (rule PlanScan_Inr_valid)
  show ?thesis
  proof (cases "memoSlot m oid (TypeOf target) fc")
    case (Some q)
    with assms show ?thesis by (simp add: PlanScan_hit)
  next
    case None
    show ?thesis
    proof (cases "planScan E n
             (case memoizedScanPlans m oid of
                None \<Rightarrow> m\<lparr>memoizedScanPlans := (memoizedScanPlans m)(oid \<mapsto> Map.empty)\<rparr>
              | Some om \<Rightarrow> m) oid fc target")
      case None
      with assms show ?thesis
        by (simp add: PlanScan_miss [OF v \<open>memoSlot m oid (TypeOf target) fc = None\<close>])
    next
      case (Some r)
      obtain plan m2 where r: "r = (plan, m2)" by (cases r)
      from assms Some r have
        "p = plan" and
        "m' = m2\<lparr>memoizedScanPlans :=
                 (memoizedScanPlans m2)
                   (oid \<mapsto> (oidMemoOf m2 oid)
                      (TypeOf target \<mapsto>
                         memoStore (typeMemoOf m oid (TypeOf target)) fc (Some plan)))\<rparr>"
        by (auto simp: PlanScan_miss [OF v \<open>memoSlot m oid (TypeOf target) fc = None\<close>])
      then show ?thesis
        using v by (simp add: memoSlot_write memoIndex_memoStore)
    qed
  qed
qed

lemma memoKept_refl: "memoKept m m"
  by (simp add: memoKept_def)

lemma memoKept_trans: "memoKept a b \<Longrightarrow> memoKept b c \<Longrightarrow> memoKept a c"
  unfolding memoKept_def by blast

lemma memoSlot_cong: "memoizedScanPlans m = memoizedScanPlans m' \<Longrightarrow> memoSlot m = memoSlot m'"
  by (rule ext)+ (simp add: memoSlot_def typeMemoOf_def oidMemoOf_def)

lemma memoKept_same: "memoizedScanPlans m = memoizedScanPlans m' \<Longrightarrow> memoKept m m'"
  using memoSlot_cong [of m m'] by (simp add: memoKept_def)

lemma TypeForValue_memo: "memoizedScanPlans (snd (TypeForValue m v)) = memoizedScanPlans m"
  by (simp add: TypeForValue_def buildReflectTypeToType_def Let_def split: option.splits)

lemma planScanType_memo:
  "planScanType m oid target = (dt, oid', m1) \<Longrightarrow> memoizedScanPlans m1 = memoizedScanPlans m"
  using TypeForValue_memo [of m target]
  by (auto simp: planScanType_def split: option.splits prod.splits)



lemma codecsKeepMemoD:
  "codecsKeepMemo E \<Longrightarrow> CodecPlanScan E c m oid fc v = (r, m') \<Longrightarrow> memoKept m m'"
  unfolding codecsKeepMemo_def by (metis snd_conv)

lemma planScan_memoKept:
  assumes k: "codecsKeepMemo E"
  shows "planScan E n m oid fc target = Some (p, m') \<Longrightarrow> memoKept m m'"
    and "planScanWrap E n m dt oid fc target fs = Some (p, m') \<Longrightarrow> memoKept m m'"
  using k
proof (induction E n m oid fc target and E n m dt oid fc target fs
       arbitrary: p m' and p m' rule: planScan_planScanWrap.induct)
  case (1 E n m oid formatCode target)
  show ?case
  proof (cases "planScanFast E oid formatCode target")
    case (Some plan)
    with "1.prems" show ?thesis
      by (simp add: planScan.simps memoKept_refl)
  next
    case None
    obtain dt oid' m1 where t: "planScanType m oid target = (dt, oid', m1)"
      by (cases "planScanType m oid target")
    obtain r m2 where c: "(case dt of None \<Rightarrow> (None, m1)
        | Some t \<Rightarrow> CodecPlanScan E (Codec t) m1 oid' formatCode target) = (r, m2)"
      by (cases "(case dt of None \<Rightarrow> (None, m1)
        | Some t \<Rightarrow> CodecPlanScan E (Codec t) m1 oid' formatCode target)")
    have k1: "memoKept m m1"
      using planScanType_memo [OF t] memoKept_same [of m m1] by simp
    have k2: "memoKept m1 m2"
      using c "1.prems"(2) by (auto simp: memoKept_refl split: option.splits dest: codecsKeepMemoD)
    show ?thesis
    proof (cases r)
      case (Some plan)
      with "1.prems"(1) None t c have "m' = m2"
        by (simp add: planScan.simps)
      with k1 k2 show ?thesis by (blast intro: memoKept_trans)
    next
      case rNone: None
      with "1.prems"(1) None t c have
        w: "planScanWrap E n m2 dt oid' formatCode target (TryWrapScanPlanFuncs m2) = Some (p, m')"
        by (simp add: planScan.simps)
      have "memoKept m2 m'"
        using "1.IH" [OF None t [symmetric] refl c [symmetric] rNone w "1.prems"(2)] .
      with k1 k2 show ?thesis by (blast intro: memoKept_trans)
    qed
  qed
next
  case (2 E n m dt oid formatCode target)
  then show ?case by (simp add: memoKept_refl)
next
  case (3 E n m dt oid formatCode target f fs)
  show ?case
  proof (cases "f target")
    case None
    with "3.prems" "3.IH"(1) show ?thesis by simp
  next
    case (Some w)
    obtain wrapperPlan nextDst where w: "w = (wrapperPlan, nextDst)" by (cases w)
    show ?thesis
    proof (cases n)
      case 0
      with "3.prems" Some w show ?thesis by simp
    next
      case (Suc k)
      show ?thesis
      proof (cases "planScan E k m oid formatCode nextDst")
        case None
        with "3.prems" Some w Suc show ?thesis by simp
      next
        case ps: (Some r)
        obtain nextPlan m1 where r: "r = (nextPlan, m1)" by (cases r)
        have k1: "memoKept m m1"
          using "3.IH"(2) [OF Some w [symmetric] Suc ps [unfolded r] "3.prems"(2)] .
        show ?thesis
        proof (cases "isScanPlanFail nextPlan")
          case True
          with "3.prems"(1) Some w Suc ps r have
            "planScanWrap E n m1 dt oid formatCode target fs = Some (p, m')"
            by simp
          then have "memoKept m1 m'"
            using "3.IH"(3) [OF Some w [symmetric] Suc ps [unfolded r] refl True _ "3.prems"(2)]
            by simp
          with k1 show ?thesis by (blast intro: memoKept_trans)
        next
          case False
          with "3.prems"(1) Some w Suc ps r have "m' = m1" by simp
          with k1 show ?thesis by simp
        qed
      qed
    qed
  qed
qed


lemma PlanScan_memoKept:
  assumes k: "codecsKeepMemo E"
    and r: "PlanScan E n m oid fc target = Some (Inr (p, m'))"
  shows "memoKept m m'"
proof (cases "memoSlot m oid (TypeOf target) fc")
  case (Some q)
  with r show ?thesis by (simp add: PlanScan_hit memoKept_refl)
next
  case None
  have v: "fc = 0 \<or> fc = 1"
    using r by (rule PlanScan_Inr_valid)
  let ?m1 = "case memoizedScanPlans m oid of
                None \<Rightarrow> m\<lparr>memoizedScanPlans := (memoizedScanPlans m)(oid \<mapsto> Map.empty)\<rparr>
              | Some om \<Rightarrow> m"
  have s1: "memoSlot ?m1 = memoSlot m"
    by (auto simp: fun_eq_iff memoSlot_fresh_inner split: option.splits)
  from r obtain m2 where
    ps: "planScan E n ?m1 oid fc target = Some (p, m2)" and
    m': "m' = m2\<lparr>memoizedScanPlans :=
                 (memoizedScanPlans m2)
                   (oid \<mapsto> (oidMemoOf m2 oid)
                      (TypeOf target \<mapsto>
                         memoStore (typeMemoOf m oid (TypeOf target)) fc (Some p)))\<rparr>"
    by (auto simp: PlanScan_miss [OF v None] split: option.splits)
  have k2: "memoKept ?m1 m2"
    using planScan_memoKept(1) [OF k ps] .
  show ?thesis
    unfolding memoKept_def
  proof (intro allI impI)
    fix oid' t' fc' q
    assume a: "memoSlot m oid' t' fc' = Some q"
    then have a2: "memoSlot m2 oid' t' fc' = Some q"
      using k2 s1 unfolding memoKept_def by simp
    show "memoSlot m' oid' t' fc' = Some q"
    proof (cases "oid' = oid \<and> t' = TypeOf target")
      case False
      with a2 show ?thesis by (auto simp: m' memoSlot_write)
    next
      case True
      with a None have ne: "fc' \<noteq> fc" by auto
      have "memoIndex (typeMemoOf m oid (TypeOf target)) fc' = Inr (Some q)"
        using a True by (simp add: memoSlot_Some_index)
      with True ne v show ?thesis
        by (simp add: m' memoSlot_write memoIndex_memoStore)
    qed
  qed
qed

lemma PlanScans_memoKept:
  "codecsKeepMemo E \<Longrightarrow> PlanScans E n m rs = Some m' \<Longrightarrow> memoKept m m'"
proof (induction rs arbitrary: m)
  case Nil
  then show ?case by (simp add: memoKept_refl)
next
  case (Cons r rs)
  obtain oid fc target where r: "r = (oid, fc, target)" by (cases r)
  from Cons.prems(2) r obtain p m1 where
    c: "PlanScan E n m oid fc target = Some (Inr (p, m1))" and
    rest: "PlanScans E n m1 rs = Some m'"
    by (auto split: option.splits sum.splits)
  from PlanScan_memoKept [OF Cons.prems(1) c] Cons.IH [OF Cons.prems(1) rest]
  show ?case by (rule memoKept_trans)
qed


lemma codecsKeepMemo_exEnv: "codecsKeepMemo exEnv"
  by (simp add: codecsKeepMemo_def exEnv_def memoKept_refl)

lemmas ex_defs = exMap_def exMap1_def exMap2_def RegisterType_def emptyMap_def exEnv_def
  exTarget_def exTypeC_def exRequests_def
  BinaryFormatCode_def TextFormatCode_def UndecodedBytesT_def ptrString_def ptrBytes_def
  ptrAny_def ByteaOID_def TextOID_def VarcharOID_def

lemmas plan_defs = PlanScan_def Let_def memoIndex_valid memoStore_def typeMemoOf_def oidMemoOf_def
  planScan.simps planScanFast_def planScanType_def planScanLast_def TypeForOID_def
  TypeForValue_def buildReflectTypeToType_def assertsTo_def

lemma ex_first: "PlanScan exEnv 0 exMap 2 1 exTarget = Some (Inr (codecScanPlan 2, exMap1))"
  by (simp add: plan_defs ex_defs)

lemma ex_second: "PlanScans exEnv 0 exMap1 exRequests = Some exMap2"
  by (simp add: plan_defs ex_defs)



text \<open>
  C3. Let a \<open>PlanScan\<close> call with the text or binary format code return a plan, and let
  any number of further \<open>PlanScan\<close> calls follow, with no registration in between (the
  codecs do not drop memoized plans either). Then the memo slot of that identifier,
  destination type and format code holds that plan, so a repeated call, for any target
  of the same type, finds a plan that is not nil and never reaches \<open>planScan\<close>: it
  returns the identical plan and leaves the Map as it is, whatever the codecs and the
  depth bound (\<open>E'\<close>, \<open>n'\<close>) would be.
\<close>

theorem C3_PlanScan_memoized:
  assumes "codecsKeepMemo E"
    and "formatCode = TextFormatCode \<or> formatCode = BinaryFormatCode"
    and "PlanScan E n m oid formatCode target = Some (Inr (plan, m1))"
    and "PlanScans E n m1 rs = Some m2"
    and "TypeOf target' = TypeOf target"
  shows "memoSlot m2 oid (TypeOf target') formatCode = Some plan \<and>
         PlanScan E' n' m2 oid formatCode target' = Some (Inr (plan, m2))"
proof -
  have "memoSlot m1 oid (TypeOf target) formatCode = Some plan"
    using assms(3) by (rule PlanScan_fills)
  moreover have "memoKept m1 m2"
    using assms(1,4) by (rule PlanScans_memoKept)
  ultimately have s: "memoSlot m2 oid (TypeOf target') formatCode = Some plan"
    using assms(5) unfolding memoKept_def by simp
  then show ?thesis
    by (simp add: PlanScan_hit)
qed

theorem C3_PlanScan_memoized_witness:
  "codecsKeepMemo exEnv \<and> (1 :: format) = BinaryFormatCode \<and>
   PlanScan exEnv 0 exMap 2 1 exTarget = Some (Inr (codecScanPlan 2, exMap1)) \<and>
   PlanScans exEnv 0 exMap1 exRequests = Some exMap2 \<and>
   TypeOf (Dyn (PtrTo (Predeclared int32_t)) (ptr 5)) = TypeOf exTarget \<and>
   memoSlot exMap2 2 (Some (PtrTo (Predeclared int32_t))) 1 = Some (codecScanPlan 2) \<and>
   PlanScan exEnv 0 exMap2 2 1 (Dyn (PtrTo (Predeclared int32_t)) (ptr 5))
     = Some (Inr (codecScanPlan 2, exMap2))"
proof -
  have f: "(1 :: format) = TextFormatCode \<or> (1 :: format) = BinaryFormatCode"
    by (simp add: BinaryFormatCode_def)
  have t: "TypeOf (Dyn (PtrTo (Predeclared int32_t)) (ptr 5)) = TypeOf exTarget"
    by (simp add: exTarget_def)
  show ?thesis
    using C3_PlanScan_memoized [OF codecsKeepMemo_exEnv f ex_first ex_second t, of exEnv 0]
      codecsKeepMemo_exEnv ex_first ex_second
    by (simp add: BinaryFormatCode_def exTarget_def)
qed

section \<open>Properties of descriptor resolution\<close>

lemma PlanEncode_by_oid:
  "oid \<noteq> 0 \<Longrightarrow> PlanEncode E n m oid fc v = PlanEncodeByOID E n m oid fc v"
  "oid \<noteq> 0 \<Longrightarrow> planEncodeWrap E n m oid fc v fs = planEncodeWrapByOID E n m oid fc v fs"
proof (induction E n m oid fc v and E n m oid fc v fs rule: PlanEncode_planEncodeWrap.induct)
  case (1 E n m oid formatCode v)
  show ?case
  proof (cases "planEncodeFast E formatCode v")
    case (Some plan)
    then show ?thesis
      by (simp add: PlanEncode.simps PlanEncodeByOID.simps)
  next
    case None
    have t: "planEncodeType m oid v = (TypeForOID m oid, oid, m)"
      using "1.prems" by (simp add: planEncodeType_def)
    obtain r m2 where c: "(case TypeForOID m oid of None \<Rightarrow> (None, m)
        | Some t \<Rightarrow> CodecPlanEncode E (Codec t) m oid formatCode v) = (r, m2)"
      by (cases "(case TypeForOID m oid of None \<Rightarrow> (None, m)
        | Some t \<Rightarrow> CodecPlanEncode E (Codec t) m oid formatCode v)")
    show ?thesis
    proof (cases r)
      case rNone: None
      have "planEncodeWrap E n m2 oid formatCode v (TryWrapEncodePlanFuncs m2)
            = planEncodeWrapByOID E n m2 oid formatCode v (TryWrapEncodePlanFuncs m2)"
        using "1.IH" [OF None t [symmetric] refl c [symmetric] rNone "1.prems"] .
      with None t c rNone show ?thesis
        by (simp add: PlanEncode.simps PlanEncodeByOID.simps)
    next
      case (Some plan)
      with None t c show ?thesis
        by (simp add: PlanEncode.simps PlanEncodeByOID.simps)
    qed
  qed
next
  case (2 E n m oid formatCode v)
  then show ?case by simp
next
  case (3 E n m oid formatCode v f fs)
  show ?case
  proof (cases "f v")
    case None
    with "3.IH"(1) "3.prems" show ?thesis by simp
  next
    case (Some w)
    obtain wrapperPlan nextValue where w: "w = (wrapperPlan, nextValue)" by (cases w)
    show ?thesis
    proof (cases n)
      case 0
      with Some w show ?thesis by simp
    next
      case (Suc k)
      have e: "PlanEncode E k m oid formatCode nextValue
               = PlanEncodeByOID E k m oid formatCode nextValue"
        using "3.IH"(2) [OF Some w [symmetric] Suc "3.prems"] .
      show ?thesis
      proof (cases "PlanEncodeByOID E k m oid formatCode nextValue")
        case None
        with Some w Suc e show ?thesis by simp
      next
        case ps: (Some r)
        obtain np m1 where r: "r = (np, m1)" by (cases r)
        show ?thesis
        proof (cases np)
          case npNone: None
          have "planEncodeWrap E n m1 oid formatCode v fs
                = planEncodeWrapByOID E n m1 oid formatCode v fs"
            using "3.IH"(3) [OF Some w [symmetric] Suc _ _ npNone "3.prems"] e ps r npNone
            by simp
          with Some w Suc e ps r npNone show ?thesis by simp
        next
          case (Some nextPlan)
          with \<open>f v = Some w\<close> w Suc e ps r show ?thesis by simp
        qed
      qed
    qed
  qed
qed

lemmas ex_infer_defs = exMapInfer_def RegisterDefaultPgType_def ex_defs

text \<open>
  C2 (as stated, refuted for \<open>planScan\<close>). The identifier 99 is not zero and has no
  descriptor; the shape \<open>*int32\<close> is mapped to the descriptor with OID 2. \<open>planScan\<close>
  consults \<open>TypeForValue\<close> (the shape index, nil before, is built), finds that
  descriptor and asks its codec for OID 2. \<open>PlanEncode\<close>, given the same identifier,
  infers nothing and finds no plan.
\<close>

theorem C2_planScan_infers_nonzero:
  "(99 :: oid) \<noteq> 0 \<and>
   TypeForOID exMapInfer 99 = None \<and>
   reflectTypeToType exMapInfer = None \<and>
   fst (TypeForValue exMapInfer exTarget) = Some exTypeC \<and>
   OID exTypeC = 2 \<and>
   planScan exEnv 0 exMapInfer 99 1 exTarget
     = Some (codecScanPlan 2, buildReflectTypeToType exMapInfer) \<and>
   reflectTypeToType (buildReflectTypeToType exMapInfer) \<noteq> None \<and>
   PlanEncode exEnv 0 exMapInfer 99 1 exTarget = Some (None, exMapInfer)"
  by (simp add: plan_defs ex_infer_defs PlanEncode.simps planEncodeFast_def planEncodeType_def)

text \<open>
  C2 (amended). \<open>PlanEncode\<close> with a nonzero identifier is resolution by identifier
  alone, at every depth: \<open>TypeForValue\<close> is never consulted. With identifier 0 it
  consults \<open>TypeForValue\<close>, and when a descriptor is inferred the codec and the
  recursive resolutions of the wrappers get the OID of that descriptor. \<open>planScan\<close>
  takes the descriptor registered under the identifier when there is one; when there is
  none, zero or not, it consults \<open>TypeForValue\<close>, and when a descriptor is inferred
  the codec, the wrappers and the last-resort plans get the OID of that descriptor.
\<close>

theorem C2_descriptor_resolution:
  "(oid \<noteq> 0 \<longrightarrow> PlanEncode E n m oid formatCode v = PlanEncodeByOID E n m oid formatCode v) \<and>
   (planEncodeFast E formatCode v = None \<longrightarrow>
      PlanEncode E n m 0 formatCode v =
        (case TypeForValue m v of
           (None, m1) \<Rightarrow> planEncodeWrap E n m1 0 formatCode v (TryWrapEncodePlanFuncs m1)
         | (Some t, m1) \<Rightarrow>
             (case CodecPlanEncode E (Codec t) m1 (OID t) formatCode v of
                (Some plan, m2) \<Rightarrow> Some (Some plan, m2)
              | (None, m2) \<Rightarrow>
                  planEncodeWrap E n m2 (OID t) formatCode v (TryWrapEncodePlanFuncs m2)))) \<and>
   (planScanFast E oid formatCode target = None \<and> TypeForOID m oid = Some dt \<longrightarrow>
      planScan E n m oid formatCode target =
        (case CodecPlanScan E (Codec dt) m oid formatCode target of
           (Some plan, m2) \<Rightarrow> Some (plan, m2)
         | (None, m2) \<Rightarrow>
             planScanWrap E n m2 (Some dt) oid formatCode target (TryWrapScanPlanFuncs m2))) \<and>
   (planScanFast E oid formatCode target = None \<and> TypeForOID m oid = None \<longrightarrow>
      planScan E n m oid formatCode target =
        (case TypeForValue m target of
           (None, m1) \<Rightarrow>
             planScanWrap E n m1 None oid formatCode target (TryWrapScanPlanFuncs m1)
         | (Some t, m1) \<Rightarrow>
             (case CodecPlanScan E (Codec t) m1 (OID t) formatCode target of
                (Some plan, m2) \<Rightarrow> Some (plan, m2)
              | (None, m2) \<Rightarrow>
                  planScanWrap E n m2 (Some t) (OID t) formatCode target
                    (TryWrapScanPlanFuncs m2))))"
proof (intro conjI impI)
  assume "oid \<noteq> 0"
  then show "PlanEncode E n m oid formatCode v = PlanEncodeByOID E n m oid formatCode v"
    by (rule PlanEncode_by_oid(1))
next
  assume "planEncodeFast E formatCode v = None"
  then show "PlanEncode E n m 0 formatCode v =
        (case TypeForValue m v of
           (None, m1) \<Rightarrow> planEncodeWrap E n m1 0 formatCode v (TryWrapEncodePlanFuncs m1)
         | (Some t, m1) \<Rightarrow>
             (case CodecPlanEncode E (Codec t) m1 (OID t) formatCode v of
                (Some plan, m2) \<Rightarrow> Some (Some plan, m2)
              | (None, m2) \<Rightarrow>
                  planEncodeWrap E n m2 (OID t) formatCode v (TryWrapEncodePlanFuncs m2)))"
    by (simp add: PlanEncode.simps planEncodeType_def split: prod.splits option.splits)
next
  assume "planScanFast E oid formatCode target = None \<and> TypeForOID m oid = Some dt"
  then show "planScan E n m oid formatCode target =
        (case CodecPlanScan E (Codec dt) m oid formatCode target of
           (Some plan, m2) \<Rightarrow> Some (plan, m2)
         | (None, m2) \<Rightarrow>
             planScanWrap E n m2 (Some dt) oid formatCode target (TryWrapScanPlanFuncs m2))"
    by (simp add: planScan.simps planScanType_def split: prod.splits option.splits)
next
  assume "planScanFast E oid formatCode target = None \<and> TypeForOID m oid = None"
  then show "planScan E n m oid formatCode target =
        (case TypeForValue m target of
           (None, m1) \<Rightarrow>
             planScanWrap E n m1 None oid formatCode target (TryWrapScanPlanFuncs m1)
         | (Some t, m1) \<Rightarrow>
             (case CodecPlanScan E (Codec t) m1 (OID t) formatCode target of
                (Some plan, m2) \<Rightarrow> Some (plan, m2)
              | (None, m2) \<Rightarrow>
                  planScanWrap E n m2 (Some t) (OID t) formatCode target
                    (TryWrapScanPlanFuncs m2)))"
    by (simp add: planScan.simps planScanType_def split: prod.splits option.splits)
qed

theorem C2_descriptor_resolution_witness:
  "(2 :: oid) \<noteq> 0 \<and>
   PlanEncode exEnv 0 exMapInfer 2 1 exTarget = Some (Some (codecEncodePlan 2), exMapInfer) \<and>
   planEncodeFast exEnv 1 exTarget = None \<and>
   PlanEncode exEnv 0 exMapInfer 0 1 exTarget
     = Some (Some (codecEncodePlan 2), buildReflectTypeToType exMapInfer) \<and>
   planScanFast exEnv 2 1 exTarget = None \<and> TypeForOID exMapInfer 2 = Some exTypeC \<and>
   planScan exEnv 0 exMapInfer 2 1 exTarget = Some (codecScanPlan 2, exMapInfer) \<and>
   planScanFast exEnv 0 1 exTarget = None \<and> TypeForOID exMapInfer 0 = None \<and>
   planScan exEnv 0 exMapInfer 0 1 exTarget
     = Some (codecScanPlan 2, buildReflectTypeToType exMapInfer)"
  using C2_descriptor_resolution [of 2 exEnv 0 exMapInfer 1 exTarget exTarget exTypeC]
    C2_descriptor_resolution [of 0 exEnv 0 exMapInfer 1 exTarget exTarget exTypeC]
  by (simp add: plan_defs ex_infer_defs PlanEncodeByOID.simps planEncodeFast_def)

section \<open>Properties of Encode and Scan\<close>

text \<open>
  C5. \<open>Encode\<close> of a nil value returns \<open>(nil, nil)\<close>: no bytes and no error. It does so
  for every identifier, format code and buffer, whatever the codecs are and with no
  depth of planning allowed, and it leaves the Map as it was (a descriptor lookup by
  shape would have built the shape index): nothing is looked up or planned.
\<close>

theorem C5_Encode_nil:
  "Encode E n m oid formatCode NilInterface buf h = Some (Inr ((nil_slice, None), m, h))"
  by (simp add: Encode.simps)

text \<open>
  C10. \<open>Scan\<close> into a nil destination returns nil at once, for every identifier, format
  code (also one that would make \<open>PlanScan\<close> panic) and source, and leaves the Map and
  the memory as they were: no plan is resolved or executed.
\<close>

theorem C10_Scan_nil_dst:
  "Scan E n m oid formatCode src NilInterface h = Some (Inr (None, m, h))"
  by (simp add: Scan_def)

text \<open>
  C7. Let \<open>PlanEncode\<close> find no plan for a value that is not nil. If the value is a
  \<open>driver.Valuer\<close> and \<open>Value()\<close> succeeds, \<open>Encode\<close> is \<open>Encode\<close> of the returned
  value, with the same identifier, format code and buffer (if \<open>Value()\<close> returns an
  error, that error is the result). If the value is no \<open>driver.Valuer\<close>, the result
  is the error "unable to encode" and a nil buffer.
\<close>

theorem C7_Encode_no_plan:
  assumes "v \<noteq> NilInterface"
    and "PlanEncode E (Suc k) m oid formatCode v = Some (None, m1)"
  shows "(assertsTo E ''driver.Valuer'' v \<and> ValuerValue E v m1 h = Inr (v', None) \<longrightarrow>
            Encode E (Suc k) m oid formatCode v buf h = Encode E k m1 oid formatCode v' buf h) \<and>
         (assertsTo E ''driver.Valuer'' v \<and> ValuerValue E v m1 h = Inr (v', Some err) \<longrightarrow>
            Encode E (Suc k) m oid formatCode v buf h
              = Some (Inr ((nil_slice, Some err), m1, h))) \<and>
         (\<not> assertsTo E ''driver.Valuer'' v \<longrightarrow>
            Encode E (Suc k) m oid formatCode v buf h
              = Some (Inr ((nil_slice, Some (ErrUnableToEncode v oid)), m1, h)))"
  using assms by (simp add: Encode.simps [of E "Suc k"])

lemmas enc_defs = PlanEncode.simps planEncodeFast_def planEncodeType_def TypeForOID_def
  assertsTo_def TextFormatCode_def emptyMap_def

theorem C7_Encode_no_plan_witness:
  "exValuer \<noteq> NilInterface \<and>
   PlanEncode exValuerEnv (Suc 0) (emptyMap [] []) 25 0 exValuer = Some (None, emptyMap [] []) \<and>
   assertsTo exValuerEnv ''driver.Valuer'' exValuer \<and>
   ValuerValue exValuerEnv exValuer (emptyMap [] []) exHeap
     = Inr (Dyn (Predeclared string_t) (str []), None) \<and>
   Encode exValuerEnv (Suc 0) (emptyMap [] []) 25 0 exValuer nil_slice exHeap
     = Encode exValuerEnv 0 (emptyMap [] []) 25 0 (Dyn (Predeclared string_t) (str [])) nil_slice exHeap \<and>
   Encode exValuerEnv 0 (emptyMap [] []) 25 0 (Dyn (Predeclared string_t) (str [])) nil_slice exHeap
     = Some (Inr ((nil_slice, None), emptyMap [] [], exHeap)) \<and>
   \<not> assertsTo exValuerEnv ''driver.Valuer'' exTarget \<and>
   PlanEncode exValuerEnv (Suc 0) (emptyMap [] []) 25 0 exTarget = Some (None, emptyMap [] []) \<and>
   Encode exValuerEnv (Suc 0) (emptyMap [] []) 25 0 exTarget nil_slice exHeap
     = Some (Inr ((nil_slice, Some (ErrUnableToEncode exTarget 25)), emptyMap [] [], exHeap))"
proof -
  have a: "exValuer \<noteq> NilInterface" "exTarget \<noteq> NilInterface"
    by (simp_all add: exValuer_def exTarget_def)
  have p: "PlanEncode exValuerEnv (Suc 0) (emptyMap [] []) 25 0 exValuer = Some (None, emptyMap [] [])"
    by (simp add: enc_defs exValuerEnv_def exValuer_def)
  have q: "PlanEncode exValuerEnv (Suc 0) (emptyMap [] []) 25 0 exTarget = Some (None, emptyMap [] [])"
    by (simp add: enc_defs exValuerEnv_def exTarget_def)
  have r: "Encode exValuerEnv 0 (emptyMap [] []) 25 0 (Dyn (Predeclared string_t) (str [])) nil_slice exHeap
     = Some (Inr ((nil_slice, None), emptyMap [] [], exHeap))"
    by (simp add: Encode.simps enc_defs exValuerEnv_def)
  show ?thesis
    using C7_Encode_no_plan [OF a(1) p, of exHeap "Dyn (Predeclared string_t) (str [])" nil_slice]
      C7_Encode_no_plan [OF a(2) q, of exHeap NilInterface nil_slice] a p q r
    by (simp add: assertsTo_def exValuerEnv_def exValuer_def exTarget_def)
qed

lemma wf_heap_fresh: "wf_heap h \<Longrightarrow> cells h (next_addr h) = None"
  unfolding wf_heap_def by (metis less_irrefl)


lemma KindOf_Ptr_Elem: "KindOf t = Ptr \<Longrightarrow> \<exists>e. Elem t = Some e"
proof (induction t)
  case (Predeclared b)
  then show ?case by (cases b) simp_all
qed auto









text \<open>
  C6. Let \<open>TryPointerPointerScanPlan\<close> return a plan for a target, and bind it to an
  inner plan. Scanning a nil source into a destination of the target's type stores nil
  in the outer pointer and returns no error. Scanning another source allocates a new
  zero pointee, stores its address in the outer pointer and is the scan of the inner
  plan into that pointee.
\<close>

theorem C6_pointer_pointer_scan:
  assumes "TryPointerPointerScanPlan (Dyn t d) = Some (wrapperPlan, nextTarget)"
  shows "\<exists>et pt. Elem t = Some et \<and> Elem et = Some pt \<and>
           wrapperPlan = pointerPointerScanPlan t None \<and> nextTarget = Dyn et nil \<and>
           ScanPlan_Scan E (SetNext wrapperPlan inner) m nil_slice (Dyn t (ptr a)) h
             = Inr (None, m, store a nil h) \<and>
           (src \<noteq> nil_slice \<longrightarrow>
              ScanPlan_Scan E (SetNext wrapperPlan inner) m src (Dyn t (ptr a)) h
                = ScanPlan_Scan E inner m src (Dyn et (ptr (next_addr h)))
                    (store a (ptr (next_addr h)) (snd (alloc (Cell (zeroValue pt)) h)))) \<and>
           (wf_heap h \<and> cells h a \<noteq> None \<longrightarrow>
              cells h (next_addr h) = None \<and>
              cells (store a (ptr (next_addr h)) (snd (alloc (Cell (zeroValue pt)) h))) a
                = Some (Cell (ptr (next_addr h))) \<and>
              cells (store a (ptr (next_addr h)) (snd (alloc (Cell (zeroValue pt)) h)))
                  (next_addr h)
                = Some (Cell (zeroValue pt)))"
proof -
  from assms obtain et where
    k: "KindOf t = Ptr" and et: "Elem t = Some et" and ke: "KindOf et = Ptr" and
    w: "wrapperPlan = pointerPointerScanPlan t None" and nt: "nextTarget = Dyn et nil"
    by (auto simp: TryPointerPointerScanPlan_def split: if_splits data.splits option.splits)
  from ke obtain pt where pt: "Elem et = Some pt"
    using KindOf_Ptr_Elem by blast
  have z: "zeroValue et = nil"
    using ke by (simp add: zeroValue_def)
  have n: "ScanPlan_Scan E (SetNext wrapperPlan inner) m nil_slice (Dyn t (ptr a)) h
             = Inr (None, m, store a nil h)"
    using k et z by (simp add: w)
  have c: "ScanPlan_Scan E (SetNext wrapperPlan inner) m src (Dyn t (ptr a)) h
             = ScanPlan_Scan E inner m src (Dyn et (ptr (next_addr h)))
                 (store a (ptr (next_addr h)) (snd (alloc (Cell (zeroValue pt)) h)))"
    if "src \<noteq> nil_slice"
    using that k et ke pt by (simp add: w alloc_def)
  have f: "cells h (next_addr h) = None \<and>
           cells (store a (ptr (next_addr h)) (snd (alloc (Cell (zeroValue pt)) h))) a
             = Some (Cell (ptr (next_addr h))) \<and>
           cells (store a (ptr (next_addr h)) (snd (alloc (Cell (zeroValue pt)) h)))
               (next_addr h)
             = Some (Cell (zeroValue pt))"
    if "wf_heap h \<and> cells h a \<noteq> None"
  proof -
    from that have fr: "cells h (next_addr h) = None"
      by (simp add: wf_heap_fresh)
    with that have "a \<noteq> next_addr h" by auto
    with fr show ?thesis
      by (simp add: store_def alloc_def)
  qed
  from et pt w nt n c f show ?thesis by blast
qed

lemma wf_heap_exPtrHeap: "wf_heap exPtrHeap"
  by (simp add: wf_heap_def exPtrHeap_def)

theorem C6_pointer_pointer_scan_witness:
  "TryPointerPointerScanPlan exPtrPtr
     = Some (pointerPointerScanPlan (PtrTo (PtrTo (Predeclared int32_t))) None,
             Dyn (PtrTo (Predeclared int32_t)) nil) \<and>
   ScanPlan_Scan exEnv
       (SetNext (pointerPointerScanPlan (PtrTo (PtrTo (Predeclared int32_t))) None)
          (codecScanPlan 23))
       exMap nil_slice exPtrPtr exPtrHeap
     = Inr (None, exMap, store 0 nil exPtrHeap) \<and>
   exSrc \<noteq> nil_slice \<and>
   ScanPlan_Scan exEnv
       (SetNext (pointerPointerScanPlan (PtrTo (PtrTo (Predeclared int32_t))) None)
          (codecScanPlan 23))
       exMap exSrc exPtrPtr exPtrHeap
     = ScanPlan_Scan exEnv (codecScanPlan 23) exMap exSrc
         (Dyn (PtrTo (Predeclared int32_t)) (ptr 2))
         (store 0 (ptr 2) (snd (alloc (Cell (scalar 0)) exPtrHeap))) \<and>
   wf_heap exPtrHeap \<and> cells exPtrHeap 0 \<noteq> None \<and>
   cells exPtrHeap 2 = None \<and>
   cells (store 0 (ptr 2) (snd (alloc (Cell (scalar 0)) exPtrHeap))) 0 = Some (Cell (ptr 2)) \<and>
   cells (store 0 (ptr 2) (snd (alloc (Cell (scalar 0)) exPtrHeap))) 2 = Some (Cell (scalar 0))"
proof -
  have t: "TryPointerPointerScanPlan (Dyn (PtrTo (PtrTo (Predeclared int32_t))) (ptr 0))
     = Some (pointerPointerScanPlan (PtrTo (PtrTo (Predeclared int32_t))) None,
             Dyn (PtrTo (Predeclared int32_t)) nil)"
    by (simp add: TryPointerPointerScanPlan_def)
  have h: "exSrc \<noteq> nil_slice" "cells exPtrHeap 0 \<noteq> None" "next_addr exPtrHeap = 2"
    "zeroValue (Predeclared int32_t) = scalar 0"
    by (simp_all add: exSrc_def exPtrHeap_def zeroValue_def)
  show ?thesis
    using C6_pointer_pointer_scan [OF t, of exEnv "codecScanPlan 23" exMap 0 exPtrHeap exSrc]
      t h wf_heap_exPtrHeap
    by (auto simp: exPtrPtr_def)
qed


end
